theory Spec2Isabelle
  imports Complex_Main
begin

section \<open>Hospital management core: inventory, appointments, invoices\<close>

text \<open>
  A shallow embedding of \<^verbatim>\<open>hms_core.py\<close>: the operations of \<^verbatim>\<open>InventoryManager\<close>
  and \<^verbatim>\<open>OperationsManager\<close> that write to the database, over a model of the five
  tables created by \<^verbatim>\<open>DatabaseManager.initialize_schema\<close>.

  Conventions of the model.
  \<^item> Python integers are \<open>int\<close>, unbounded. An SQLite INTEGER holds 64 bits: binding a
    Python integer outside that range to a statement raises \<^verbatim>\<open>OverflowError\<close>, which
    neither \<^verbatim>\<open>execute_query\<close> nor any \<^verbatim>\<open>except ValueError\<close> catches.
  \<^item> Python floats and the REAL columns are a type parameter \<open>'m\<close>; their arithmetic,
    parsing and formatting are fields of the record \<open>builtins\<close>, so nothing is assumed
    about rounding or associativity of float addition.
  \<^item> The console is explicit: \<open>stdin\<close> is the list of lines still to be read by
    \<^verbatim>\<open>input()\<close>, \<open>stdout\<close> the list of strings written by \<^verbatim>\<open>print()\<close> (the prompts
    of \<^verbatim>\<open>input()\<close> are not recorded).
  \<^item> The database is there twice: \<open>db\<close> is what the connection sees, \<open>committed\<close>
    what is stored durably. A statement changes \<open>db\<close>; \<^verbatim>\<open>conn.commit()\<close> copies it to
    \<open>committed\<close>.
  \<^item> Of the errors of the database only \<^verbatim>\<open>IntegrityError\<close> is modelled, raised by
    the constraints of the schema; a failing connection is not.
  \<^item> Columns that no modelled statement reads or writes (timestamps, expiry date,
    the descriptive columns of a patient or of a staff member) are left out.
\<close>

subsection \<open>Tables\<close>

record patient_row =
  patient_id :: int
  full_name :: string

record staff_row =
  staff_id :: int
  staff_full_name :: string
  role :: string
  specialization :: "string option"

record 'm inventory_row =
  item_id :: int
  item_name :: string
  category :: string
  quantity :: int
  price_per_unit :: 'm
  reorder_level :: int

record appointment_row =
  appointment_id :: int
  appointment_patient_id :: int
  doctor_id :: int
  scheduled_time :: string
  status :: string
  appointment_notes :: string

record 'm bill_row =
  bill_id :: int
  bill_patient_id :: int
  items_summary :: string
  total_amount :: 'm
  payment_status :: string

text \<open>
  Rows are kept in insertion order. The \<open>_seq\<close> fields are the entries of
  \<^verbatim>\<open>sqlite_sequence\<close> that AUTOINCREMENT maintains.
\<close>

record 'm database =
  patients :: "patient_row list"
  staff :: "staff_row list"
  inventory :: "'m inventory_row list"
  appointments :: "appointment_row list"
  bills :: "'m bill_row list"
  inventory_seq :: int
  appointments_seq :: int
  bills_seq :: int

text \<open>The constraint violations that SQLite reports as \<^verbatim>\<open>IntegrityError\<close>.\<close>

datatype violation =
  Check_quantity
  | Check_total_amount
  | Not_null_price_per_unit
  | Not_null_total_amount
  | Unique_item_name
  | Foreign_key

subsection \<open>Built-ins of Python and SQLite taken as parameters\<close>

text \<open>
  \<open>fmul_int\<close> is total: Python's product of a float and an int raises only for an
  int beyond the range of a float (about \<open>2 ^ 1024\<close>), and the one product of the program
  comes after an UPDATE that has bound \<open>available - req_qty\<close> as a 64-bit integer.
\<close>

record 'm builtins =
  py_int :: "string \<Rightarrow> int option"        \<comment> \<open>\<^verbatim>\<open>int(s)\<close>; \<open>None\<close> is \<^verbatim>\<open>ValueError\<close>\<close>
  py_float :: "string \<Rightarrow> 'm option"       \<comment> \<open>\<^verbatim>\<open>float(s)\<close>; \<open>None\<close> is \<^verbatim>\<open>ValueError\<close>\<close>
  py_strip :: "string \<Rightarrow> string"           \<comment> \<open>\<^verbatim>\<open>s.strip()\<close>\<close>
  fzero :: 'm                              \<comment> \<open>\<^verbatim>\<open>0.0\<close>\<close>
  fadd :: "'m \<Rightarrow> 'm \<Rightarrow> 'm"                 \<comment> \<open>float \<^verbatim>\<open>+\<close>\<close>
  fmul_int :: "'m \<Rightarrow> int \<Rightarrow> 'm"            \<comment> \<open>float \<^verbatim>\<open>*\<close> int\<close>
  fmt2f :: "'m \<Rightarrow> string"                  \<comment> \<open>format spec \<^verbatim>\<open>:.2f\<close>\<close>
  fstr :: "'m \<Rightarrow> string"                   \<comment> \<open>\<^verbatim>\<open>str(x)\<close> of a float\<close>
  sql_is_null :: "'m \<Rightarrow> bool"              \<comment> \<open>the value is stored as NULL\<close>
  sql_ge0 :: "'m \<Rightarrow> bool"                  \<comment> \<open>SQLite's \<^verbatim>\<open>x >= 0\<close> on a REAL\<close>
  sqlite_msg :: "violation \<Rightarrow> string"      \<comment> \<open>text of the \<^verbatim>\<open>IntegrityError\<close>\<close>

subsection \<open>Exceptions\<close>

text \<open>The exceptions the modelled code can meet: \<^verbatim>\<open>int()\<close> and \<^verbatim>\<open>float()\<close>
  raise \<^verbatim>\<open>ValueError\<close>, \<^verbatim>\<open>input()\<close> raises \<^verbatim>\<open>EOFError\<close> at the end of the input,
  binding an integer that SQLite cannot hold raises \<^verbatim>\<open>OverflowError\<close>, and a statement
  that breaks a constraint raises \<^verbatim>\<open>sqlite3.IntegrityError\<close>.\<close>

datatype exc = ValueError | EOFError | OverflowError | IntegrityError violation

text \<open>How a method ends: it returns, or an exception it does not catch leaves it.\<close>

datatype outcome = Returned | Uncaught exc

text \<open>The values of a signed 64-bit integer, which the \<^verbatim>\<open>sqlite3\<close> module accepts as a
  parameter of a statement.\<close>

definition int64 :: "int \<Rightarrow> bool" where
  "int64 i \<longleftrightarrow> - (2 ^ 63) \<le> i \<and> i < 2 ^ 63"

subsection \<open>String helpers\<close>

definition digit_char :: "nat \<Rightarrow> char" where
  "digit_char d = ''0123456789'' ! d"

fun str_nat :: "nat \<Rightarrow> string" where
  "str_nat n = (if n < 10 then [digit_char n] else str_nat (n div 10) @ [digit_char (n mod 10)])"

declare str_nat.simps [simp del]

text \<open>\<^verbatim>\<open>str(n)\<close> of a Python int, as an f-string interpolates it.\<close>

definition str_int :: "int \<Rightarrow> string" where
  "str_int i = (if i < 0 then CHR ''-'' # str_nat (nat (- i)) else str_nat (nat i))"

definition lower_char :: "char \<Rightarrow> char" where
  "lower_char c =
     (case map_of (zip ''ABCDEFGHIJKLMNOPQRSTUVWXYZ'' ''abcdefghijklmnopqrstuvwxyz'') c of
        None \<Rightarrow> c | Some l \<Rightarrow> l)"

text \<open>\<^verbatim>\<open>s.lower()\<close>, which the program only compares with \<^verbatim>\<open>'y'\<close>: the letters
  \<^verbatim>\<open>y\<close> and \<^verbatim>\<open>Y\<close> are the only characters that it maps to \<^verbatim>\<open>y\<close>.\<close>

definition lower :: "string \<Rightarrow> string" where
  "lower s = map lower_char s"

text \<open>\<^verbatim>\<open>sep.join(xs)\<close>.\<close>

fun join :: "string \<Rightarrow> string list \<Rightarrow> string" where
  "join sep [] = []"
| "join sep [x] = x"
| "join sep (x # y # ys) = x @ sep @ join sep (y # ys)"

subsection \<open>The SQL statements of the program\<close>

text \<open>
  Each statement is a function of the database the connection sees. It gives the rows
  or the changed database, or raises: \<^verbatim>\<open>OverflowError\<close> when a bound integer is
  outside 64 bits (before anything is run), \<^verbatim>\<open>IntegrityError\<close> when a constraint
  fails (nothing is changed).
\<close>

text \<open>AUTOINCREMENT: one more than the largest rowid ever used in the table.\<close>

definition next_rowid :: "int list \<Rightarrow> int \<Rightarrow> int" where
  "next_rowid ids seq = max (fold max ids 0) seq + 1"

text \<open>\<^verbatim>\<open>SELECT full_name FROM patients WHERE patient_id = ?\<close> with \<^verbatim>\<open>fetch_one\<close>;
  \<^verbatim>\<open>SELECT 1 FROM patients WHERE patient_id = ?\<close> is tested through the same row.\<close>

definition select_patient :: "'m database \<Rightarrow> int \<Rightarrow> exc + patient_row option" where
  "select_patient d pid =
     (if int64 pid then Inr (find (\<lambda>p. patient_id p = pid) (patients d))
      else Inl OverflowError)"

text \<open>\<^verbatim>\<open>SELECT staff_id, full_name, specialization FROM staff WHERE role = 'Doctor'\<close>.\<close>

definition select_doctors :: "'m database \<Rightarrow> staff_row list" where
  "select_doctors d = filter (\<lambda>s. role s = ''Doctor'') (staff d)"

text \<open>\<^verbatim>\<open>SELECT 1 FROM staff WHERE staff_id = ? AND role = 'Doctor'\<close>.\<close>

definition select_doctor :: "'m database \<Rightarrow> int \<Rightarrow> exc + staff_row option" where
  "select_doctor d did =
     (if int64 did then Inr (find (\<lambda>s. staff_id s = did \<and> role s = ''Doctor'') (staff d))
      else Inl OverflowError)"

text \<open>\<^verbatim>\<open>SELECT ... FROM inventory WHERE item_name = ?\<close> with \<^verbatim>\<open>fetch_one\<close>; the
  parameter is a string.\<close>

definition select_item :: "'m database \<Rightarrow> string \<Rightarrow> 'm inventory_row option" where
  "select_item d name = find (\<lambda>r. item_name r = name) (inventory d)"

text \<open>\<^verbatim>\<open>UPDATE inventory SET quantity = ? WHERE item_id = ?\<close>, under
  \<^verbatim>\<open>CHECK(quantity >= 0)\<close>. The new quantity is computed by the program and may be any
  integer; the item id has been read from the table.\<close>

definition set_quantity :: "'m database \<Rightarrow> int \<Rightarrow> int \<Rightarrow> 'm database" where
  "set_quantity d iid new_qty =
     d\<lparr>inventory :=
         map (\<lambda>r. if item_id r = iid then r\<lparr>quantity := new_qty\<rparr> else r) (inventory d)\<rparr>"

definition update_quantity :: "'m database \<Rightarrow> int \<Rightarrow> int \<Rightarrow> exc + 'm database" where
  "update_quantity d new_qty iid =
     (if \<not> int64 new_qty then Inl OverflowError
      else if new_qty < 0 \<and> (\<exists>r \<in> set (inventory d). item_id r = iid)
      then Inl (IntegrityError Check_quantity)
      else Inr (set_quantity d iid new_qty))"

text \<open>\<^verbatim>\<open>INSERT INTO inventory (item_name, category, quantity, price_per_unit, reorder_level)\<close>,
  under \<^verbatim>\<open>item_name UNIQUE\<close>, \<^verbatim>\<open>CHECK(quantity >= 0)\<close> and \<^verbatim>\<open>price_per_unit NOT NULL\<close>.\<close>

definition insert_item ::
  "'m builtins \<Rightarrow> 'm database \<Rightarrow> string \<Rightarrow> string \<Rightarrow> int \<Rightarrow> 'm \<Rightarrow> int \<Rightarrow> exc + 'm database" where
  "insert_item L d name cat qty price reorder =
     (if \<not> int64 qty \<or> \<not> int64 reorder then Inl OverflowError
      else if sql_is_null L price then Inl (IntegrityError Not_null_price_per_unit)
      else if qty < 0 then Inl (IntegrityError Check_quantity)
      else if name \<in> set (map item_name (inventory d)) then Inl (IntegrityError Unique_item_name)
      else let iid = next_rowid (map item_id (inventory d)) (inventory_seq d)
           in Inr (d\<lparr>inventory := inventory d @
                        [\<lparr>item_id = iid, item_name = name, category = cat, quantity = qty,
                          price_per_unit = price, reorder_level = reorder\<rparr>],
                      inventory_seq := iid\<rparr>))"

text \<open>\<^verbatim>\<open>INSERT INTO appointments (patient_id, doctor_id, scheduled_time, notes)\<close>: the
  status takes the column default \<^verbatim>\<open>'Scheduled'\<close>; both foreign keys are enforced
  (\<^verbatim>\<open>PRAGMA foreign_keys = ON\<close>).\<close>

definition insert_appointment ::
  "'m database \<Rightarrow> int \<Rightarrow> int \<Rightarrow> string \<Rightarrow> string \<Rightarrow> exc + 'm database" where
  "insert_appointment d pid did date_str nts =
     (if \<not> int64 pid \<or> \<not> int64 did then Inl OverflowError
      else if pid \<notin> set (map patient_id (patients d)) \<or> did \<notin> set (map staff_id (staff d))
      then Inl (IntegrityError Foreign_key)
      else let aid = next_rowid (map appointment_id (appointments d)) (appointments_seq d)
           in Inr (d\<lparr>appointments := appointments d @
                        [\<lparr>appointment_id = aid, appointment_patient_id = pid, doctor_id = did,
                          scheduled_time = date_str, status = ''Scheduled'', appointment_notes = nts\<rparr>],
                      appointments_seq := aid\<rparr>))"

text \<open>The column default of \<^verbatim>\<open>bills.payment_status\<close>.\<close>

definition payment_status_default :: string where
  "payment_status_default = ''Pending''"

text \<open>\<^verbatim>\<open>INSERT INTO bills (patient_id, items_summary, total_amount, payment_status)
  VALUES (?,?,?, 'Unpaid')\<close>, under \<^verbatim>\<open>total_amount REAL NOT NULL CHECK(total_amount >= 0)\<close>
  and the foreign key to patients.\<close>

definition insert_bill ::
  "'m builtins \<Rightarrow> 'm database \<Rightarrow> int \<Rightarrow> string \<Rightarrow> 'm \<Rightarrow> exc + 'm database" where
  "insert_bill L d pid items_str tot =
     (if \<not> int64 pid then Inl OverflowError
      else if sql_is_null L tot then Inl (IntegrityError Not_null_total_amount)
      else if \<not> sql_ge0 L tot then Inl (IntegrityError Check_total_amount)
      else if pid \<notin> set (map patient_id (patients d)) then Inl (IntegrityError Foreign_key)
      else let bid = next_rowid (map bill_id (bills d)) (bills_seq d)
           in Inr (d\<lparr>bills := bills d @
                        [\<lparr>bill_id = bid, bill_patient_id = pid, items_summary = items_str,
                          total_amount = tot, payment_status = ''Unpaid''\<rparr>],
                      bills_seq := bid\<rparr>))"

subsection \<open>Console, connection and commit\<close>

record 'm world =
  db :: "'m database"
  committed :: "'m database"
  stdin :: "string list"
  stdout :: "string list"

definition print :: "string \<Rightarrow> 'm world \<Rightarrow> 'm world" where
  "print s w = w\<lparr>stdout := stdout w @ [s]\<rparr>"

definition input :: "'m world \<Rightarrow> (exc + string) \<times> 'm world" where
  "input w = (case stdin w of [] \<Rightarrow> (Inl EOFError, w)
              | s # rest \<Rightarrow> (Inr s, w\<lparr>stdin := rest\<rparr>))"

text \<open>\<^verbatim>\<open>int(input(...))\<close> and \<^verbatim>\<open>float(input(...))\<close>.\<close>

definition input_int :: "'m builtins \<Rightarrow> 'm world \<Rightarrow> (exc + int) \<times> 'm world" where
  "input_int L w = (case input w of (Inl e, w') \<Rightarrow> (Inl e, w')
                    | (Inr s, w') \<Rightarrow> (case py_int L s of None \<Rightarrow> (Inl ValueError, w')
                                      | Some n \<Rightarrow> (Inr n, w')))"

definition input_float :: "'m builtins \<Rightarrow> 'm world \<Rightarrow> (exc + 'm) \<times> 'm world" where
  "input_float L w = (case input w of (Inl e, w') \<Rightarrow> (Inl e, w')
                      | (Inr s, w') \<Rightarrow> (case py_float L s of None \<Rightarrow> (Inl ValueError, w')
                                        | Some x \<Rightarrow> (Inr x, w')))"

text \<open>\<^verbatim>\<open>self.conn.commit()\<close>: what the connection sees becomes what is stored.\<close>

definition commit :: "'m world \<Rightarrow> 'm world" where
  "commit w = w\<lparr>committed := db w\<rparr>"

text \<open>\<^verbatim>\<open>DatabaseManager.execute_query\<close>: run the statement, commit, and return the
  cursor (here \<open>True\<close>); on an \<^verbatim>\<open>IntegrityError\<close> print it and return \<^verbatim>\<open>None\<close> (here
  \<open>False\<close>), with nothing changed and nothing committed. Any other exception is not
  caught here.\<close>

definition execute_query ::
  "'m builtins \<Rightarrow> ('m database \<Rightarrow> exc + 'm database) \<Rightarrow> 'm world \<Rightarrow> (exc + bool) \<times> 'm world" where
  "execute_query L stmt w =
     (case stmt (db w) of
        Inr d \<Rightarrow> (Inr True, commit (w\<lparr>db := d\<rparr>))
      | Inl e \<Rightarrow>
        (case e of
           IntegrityError v \<Rightarrow> (Inr False, print (''Data Integrity Error: '' @ sqlite_msg L v) w)
         | ValueError \<Rightarrow> (Inl e, w)
         | EOFError \<Rightarrow> (Inl e, w)
         | OverflowError \<Rightarrow> (Inl e, w)))"

text \<open>An \<^verbatim>\<open>except ValueError\<close> clause that prints a message and lets the method
  return; any other exception passes through.\<close>

definition except_ValueError :: "string \<Rightarrow> exc \<Rightarrow> 'm world \<Rightarrow> outcome \<times> 'm world" where
  "except_ValueError msg e w =
     (case e of
        ValueError \<Rightarrow> (Returned, print msg w)
      | EOFError \<Rightarrow> (Uncaught e, w)
      | OverflowError \<Rightarrow> (Uncaught e, w)
      | IntegrityError v \<Rightarrow> (Uncaught e, w))"

subsection \<open>\<^verbatim>\<open>InventoryManager\<close>\<close>

text \<open>\<^verbatim>\<open>InventoryManager.add_item\<close>. The INSERT is outside the \<^verbatim>\<open>try\<close>.\<close>

definition add_item :: "'m builtins \<Rightarrow> 'm world \<Rightarrow> outcome \<times> 'm world" where
  "add_item L w0 =
     (let w1 = print (CHR 0x0A # ''--- ADD INVENTORY ITEM ---'') w0 in
      case input w1 of (Inl e, w2) \<Rightarrow> (Uncaught e, w2)
      | (Inr s1, w2) \<Rightarrow>
      (case input w2 of (Inl e, w3) \<Rightarrow> (Uncaught e, w3)
       | (Inr s2, w3) \<Rightarrow>
       (let name = py_strip L s1; cat = py_strip L s2 in
        case input_int L w3 of
          (Inl e, w4) \<Rightarrow> except_ValueError ''Error: Invalid numeric input.'' e w4
        | (Inr qty, w4) \<Rightarrow>
        (case input_float L w4 of
           (Inl e, w5) \<Rightarrow> except_ValueError ''Error: Invalid numeric input.'' e w5
         | (Inr price, w5) \<Rightarrow>
         (case input w5 of
            (Inl e, w6) \<Rightarrow> except_ValueError ''Error: Invalid numeric input.'' e w6
          | (Inr s3, w6) \<Rightarrow>
          (case (if s3 = [] then Some 10 else py_int L s3) of
             None \<Rightarrow> except_ValueError ''Error: Invalid numeric input.'' ValueError w6
           | Some reorder \<Rightarrow>
           (case execute_query L (\<lambda>d. insert_item L d name cat qty price reorder) w6 of
              (Inl e, w7) \<Rightarrow> (Uncaught e, w7)
            | (Inr True, w7) \<Rightarrow>
                (Returned, print (''Item '' @ [CHR 0x27] @ name @ [CHR 0x27] @ '' added to inventory.'') w7)
            | (Inr False, w7) \<Rightarrow>
                (Returned, print ''Error: Item likely already exists (Name must be unique).'' w7))))))))"

text \<open>\<^verbatim>\<open>InventoryManager.update_stock\<close>. The UPDATE is inside the \<^verbatim>\<open>try\<close>, whose
  only handler is for \<^verbatim>\<open>ValueError\<close>.\<close>

definition update_stock :: "'m builtins \<Rightarrow> 'm world \<Rightarrow> outcome \<times> 'm world" where
  "update_stock L w0 =
     (case input w0 of (Inl e, w1) \<Rightarrow> (Uncaught e, w1)
      | (Inr s, w1) \<Rightarrow>
      (case select_item (db w1) (py_strip L s) of
         None \<Rightarrow> (Returned, print ''Item not found.'' w1)
       | Some item \<Rightarrow>
       (let w2 = print (''Current Stock: '' @ str_int (quantity item)) w1 in
        case input_int L w2 of
          (Inl e, w3) \<Rightarrow> except_ValueError ''Invalid input.'' e w3
        | (Inr change, w3) \<Rightarrow>
        (let new_qty = quantity item + change in
         if new_qty < 0 then (Returned, print ''Error: Resulting stock cannot be negative.'' w3)
         else (case execute_query L (\<lambda>d. update_quantity d new_qty (item_id item)) w3 of
                 (Inl e, w4) \<Rightarrow> except_ValueError ''Invalid input.'' e w4
               | (Inr ok, w4) \<Rightarrow> (Returned, print ''Stock updated successfully.'' w4))))))"

subsection \<open>\<^verbatim>\<open>OperationsManager\<close>\<close>

text \<open>The line printed for one doctor by \<^verbatim>\<open>schedule_appointment\<close>.\<close>

definition doctor_line :: "staff_row \<Rightarrow> string" where
  "doctor_line d =
     ''ID: '' @ str_int (staff_id d) @ '' | Dr. '' @ staff_full_name d @ '' ('' @
     (case specialization d of None \<Rightarrow> ''General''
      | Some sp \<Rightarrow> if sp = [] then ''General'' else sp) @ '')''"

text \<open>\<^verbatim>\<open>OperationsManager.schedule_appointment\<close>. The whole body after the first
  \<^verbatim>\<open>print\<close> is inside the \<^verbatim>\<open>try\<close>.\<close>

definition schedule_appointment :: "'m builtins \<Rightarrow> 'm world \<Rightarrow> outcome \<times> 'm world" where
  "schedule_appointment L w0 =
     (let w1 = print (CHR 0x0A # ''--- SCHEDULE APPOINTMENT ---'') w0 in
      case input_int L w1 of
        (Inl e, w2) \<Rightarrow> except_ValueError ''Invalid numeric input.'' e w2
      | (Inr pid, w2) \<Rightarrow>
      (case select_patient (db w2) pid of
         Inl e \<Rightarrow> except_ValueError ''Invalid numeric input.'' e w2
       | Inr None \<Rightarrow> (Returned, print ''Error: Patient ID not found.'' w2)
       | Inr (Some p) \<Rightarrow>
       (let w3 = print (CHR 0x0A # ''Available Doctors:'') w2;
            w4 = fold (\<lambda>d. print (doctor_line d)) (select_doctors (db w3)) w3 in
        case input_int L w4 of
          (Inl e, w5) \<Rightarrow> except_ValueError ''Invalid numeric input.'' e w5
        | (Inr did, w5) \<Rightarrow>
        (case select_doctor (db w5) did of
           Inl e \<Rightarrow> except_ValueError ''Invalid numeric input.'' e w5
         | Inr None \<Rightarrow> (Returned, print ''Error: Invalid Doctor ID.'' w5)
         | Inr (Some doc_check) \<Rightarrow>
         (case input w5 of (Inl e, w6) \<Rightarrow> except_ValueError ''Invalid numeric input.'' e w6
          | (Inr date_str, w6) \<Rightarrow>
          (case input w6 of (Inl e, w7) \<Rightarrow> except_ValueError ''Invalid numeric input.'' e w7
           | (Inr nts, w7) \<Rightarrow>
           (case execute_query L (\<lambda>d. insert_appointment d pid did date_str nts) w7 of
              (Inl e, w8) \<Rightarrow> except_ValueError ''Invalid numeric input.'' e w8
            | (Inr True, w8) \<Rightarrow> (Returned, print ''Appointment confirmed.'' w8)
            | (Inr False, w8) \<Rightarrow> (Returned, w8))))))))"

subsection \<open>\<^verbatim>\<open>OperationsManager.generate_bill\<close>\<close>

text \<open>
  The local variables of \<^verbatim>\<open>generate_bill\<close> while an invoice is composed. The source
  appends the text of a line to \<^verbatim>\<open>bill_items\<close> right after the UPDATE of the stock and
  adds its amount to \<^verbatim>\<open>total_amount\<close> in the next statement; the model keeps beside the
  text the amount and the UPDATE that went with the line (item id and quantity written,
  if one was committed), so that the lines of an invoice have costs that can be summed
  and debits that can be followed. \<open>running_total\<close> is the local \<^verbatim>\<open>total_amount\<close>.
\<close>

record 'm line =
  line_text :: string
  line_cost :: 'm
  line_update :: "(int \<times> int) option"

record 'm invoice =
  bill_items :: "'m line list"
  running_total :: 'm
  world :: "'m world"

text \<open>How one pass through the body of \<^verbatim>\<open>while True\<close> ends.\<close>

datatype 'a step = Break 'a | Continue 'a | Raise exc 'a

text \<open>The consultation-fee question (source lines 376 to 382), from the empty invoice.\<close>

definition consultation_fee :: "'m builtins \<Rightarrow> 'm world \<Rightarrow> exc option \<times> 'm invoice" where
  "consultation_fee L w0 =
     (let c0 = \<lparr>bill_items = [], running_total = fzero L, world = w0\<rparr> in
      case input w0 of (Inl e, w1) \<Rightarrow> (Some e, c0\<lparr>world := w1\<rparr>)
      | (Inr a, w1) \<Rightarrow>
      if lower a = ''y'' then
        (case input_float L w1 of (Inl e, w2) \<Rightarrow> (Some e, c0\<lparr>world := w2\<rparr>)
         | (Inr fee, w2) \<Rightarrow>
           (None, \<lparr>bill_items = [\<lparr>line_text = ''Consultation: $'' @ fmt2f L fee, line_cost = fee,
                                   line_update = None\<rparr>],
                   running_total = fadd L (fzero L) fee, world = w2\<rparr>))
      else (None, c0\<lparr>world := w1\<rparr>))"

text \<open>The body of the loop (source lines 386 to 412): one question, and at most one
  inventory draw.\<close>

definition bill_loop_body :: "'m builtins \<Rightarrow> 'm invoice \<Rightarrow> 'm invoice step" where
  "bill_loop_body L c =
     (case input (world c) of (Inl e, w1) \<Rightarrow> Raise e (c\<lparr>world := w1\<rparr>)
      | (Inr a, w1) \<Rightarrow>
      if lower a \<noteq> ''y'' then Break (c\<lparr>world := w1\<rparr>)
      else
      (case input w1 of (Inl e, w2) \<Rightarrow> Raise e (c\<lparr>world := w2\<rparr>)
       | (Inr name, w2) \<Rightarrow>
       (case select_item (db w2) name of
          None \<Rightarrow> Continue (c\<lparr>world := print ''Item not found in inventory.'' w2\<rparr>)
        | Some stock_data \<Rightarrow>
        (let iid = item_id stock_data; price = price_per_unit stock_data;
             available = quantity stock_data;
             w3 = print (''Price: $'' @ fstr L price @ ''/unit | Available: '' @ str_int available) w2
         in
         case input_int L w3 of (Inl e, w4) \<Rightarrow> Raise e (c\<lparr>world := w4\<rparr>)
         | (Inr req_qty, w4) \<Rightarrow>
         if req_qty > available then
           Continue (c\<lparr>world := print (''Error: Insufficient stock. Only '' @ str_int available @
                                       '' available.'') w4\<rparr>)
         else
           (let new_qty = available - req_qty in
            case execute_query L (\<lambda>d. update_quantity d new_qty iid) w4 of
              (Inl e, w5) \<Rightarrow> Raise e (c\<lparr>world := w5\<rparr>)
            | (Inr ok, w5) \<Rightarrow>
              (let cost = fmul_int L price req_qty in
               Continue
                 \<lparr>bill_items = bill_items c @
                    [\<lparr>line_text = name @ '' x'' @ str_int req_qty @ '': $'' @ fmt2f L cost,
                      line_cost = cost,
                      line_update = (if ok then Some (iid, new_qty) else None)\<rparr>],
                  running_total = fadd L (running_total c) cost,
                  world = print (''Added '' @ name @ '' to bill and updated inventory.'') w5\<rparr>))))))"

text \<open>\<^verbatim>\<open>while True\<close>: every pass that continues has read at least one line, so the
  loop ends, at the latest with \<^verbatim>\<open>EOFError\<close> when the input is used up.\<close>

function bill_loop :: "'m builtins \<Rightarrow> 'm invoice \<Rightarrow> exc option \<times> 'm invoice" where
  "bill_loop L c =
     (case bill_loop_body L c of
        Break c' \<Rightarrow> (None, c')
      | Continue c' \<Rightarrow> bill_loop L c'
      | Raise e c' \<Rightarrow> (Some e, c'))"
  by pat_completeness auto
termination
  by (relation "measure (\<lambda>(L, c). length (stdin (world c)))")
     (auto simp: bill_loop_body_def input_def input_int_def print_def execute_query_def commit_def
           Let_def
           split: list.splits if_splits option.splits sum.splits prod.splits exc.splits)

declare bill_loop.simps [simp del]

text \<open>After the loop (source lines 414 to 427): the INSERT into bills, whose result is
  not looked at, and the printed invoice.\<close>

definition write_bill ::
  "'m builtins \<Rightarrow> int \<Rightarrow> patient_row \<Rightarrow> 'm invoice \<Rightarrow> exc option \<times> 'm world" where
  "write_bill L pid patient c =
     (let items_str = join ''; '' (map line_text (bill_items c)) in
      case execute_query L (\<lambda>d. insert_bill L d pid items_str (running_total c)) (world c) of
        (Inl e, w1) \<Rightarrow> (Some e, w1)
      | (Inr ok, w1) \<Rightarrow>
        (let w2 = print (CHR 0x0A # replicate 40 (CHR ''='')) w1;
             w3 = print (''INVOICE GENERATED FOR '' @ full_name patient) w2;
             w4 = print (replicate 40 (CHR ''='')) w3;
             w5 = fold (\<lambda>item. print (''* '' @ line_text item)) (bill_items c) w4;
             w6 = print (replicate 40 (CHR ''-'')) w5;
             w7 = print (''TOTAL PAYABLE: $'' @ fmt2f L (running_total c)) w6
         in (None, print (replicate 40 (CHR ''='')) w7)))"

text \<open>The \<^verbatim>\<open>try\<close> block of \<^verbatim>\<open>generate_bill\<close>: \<open>None\<close> when it ends without an
  exception.\<close>

definition generate_bill_try :: "'m builtins \<Rightarrow> 'm world \<Rightarrow> exc option \<times> 'm world" where
  "generate_bill_try L w0 =
     (case input_int L w0 of (Inl e, w1) \<Rightarrow> (Some e, w1)
      | (Inr pid, w1) \<Rightarrow>
      (case select_patient (db w1) pid of
         Inl e \<Rightarrow> (Some e, w1)
       | Inr None \<Rightarrow> (None, print ''Patient not found.'' w1)
       | Inr (Some patient) \<Rightarrow>
       (let w2 = print (''Invoicing for: '' @ full_name patient) w1 in
        case consultation_fee L w2 of (Some e, c0) \<Rightarrow> (Some e, world c0)
        | (None, c0) \<Rightarrow>
        (case bill_loop L c0 of (Some e, c1) \<Rightarrow> (Some e, world c1)
         | (None, c1) \<Rightarrow> write_bill L pid patient c1))))"

text \<open>\<^verbatim>\<open>OperationsManager.generate_bill\<close>.\<close>

definition generate_bill :: "'m builtins \<Rightarrow> 'm world \<Rightarrow> outcome \<times> 'm world" where
  "generate_bill L w0 =
     (case generate_bill_try L (print (CHR 0x0A # ''--- GENERATE INVOICE ---'') w0) of
        (None, w1) \<Rightarrow> (Returned, w1)
      | (Some e, w1) \<Rightarrow> except_ValueError ''Invalid input error. Transaction aborted.'' e w1)"

subsection \<open>Two instances of the built-ins for closed examples\<close>

text \<open>
  The examples below run the model on concrete inputs, with amounts as rationals.
  Numbers are read from plain decimal literals (an optional sign, digits, at most one
  point), and \<open>format_str\<close> writes at most 17 decimals. A character stands for the
  code point of the same number, and \<open>is_space\<close> holds of the code points up to 255
  that \<^verbatim>\<open>str.isspace\<close> accepts, which are the ones that \<^verbatim>\<open>str.strip\<close> removes.
  \<^item> \<open>decimal_builtins\<close> computes exactly. On the short decimal amounts it is used
    with, this is what Python computes with floats.
  \<^item> \<open>double_builtins\<close> rounds every number read, every sum and every product to
    the nearest double (53 significant bits, ties to even), as Python's floats do inside
    their finite range.
  The general theorems do not depend on either.
\<close>

definition is_space :: "char \<Rightarrow> bool" where
  "is_space c \<longleftrightarrow> c \<in> set [CHR '' '', CHR 0x09, CHR 0x0A, CHR 0x0B, CHR 0x0C, CHR 0x0D,
                           CHR 0x1C, CHR 0x1D, CHR 0x1E, CHR 0x1F, CHR 0x85, CHR 0xA0]"

definition strip :: "string \<Rightarrow> string" where
  "strip s = rev (dropWhile is_space (rev (dropWhile is_space s)))"

definition digit_val :: "char \<Rightarrow> int option" where
  "digit_val c = map_of (zip ''0123456789'' [0, 1, 2, 3, 4, 5, 6, 7, 8, 9]) c"

definition parse_digits :: "string \<Rightarrow> int option" where
  "parse_digits s =
     (if s = [] then None
      else fold (\<lambda>c acc. case acc of None \<Rightarrow> None
                          | Some a \<Rightarrow> (case digit_val c of None \<Rightarrow> None
                                       | Some d \<Rightarrow> Some (10 * a + d))) s (Some 0))"

definition parse_int :: "string \<Rightarrow> int option" where
  "parse_int s =
     (case strip s of [] \<Rightarrow> None
      | c # cs \<Rightarrow> if c = CHR ''-'' then map_option uminus (parse_digits cs)
                  else if c = CHR ''+'' then parse_digits cs
                  else parse_digits (c # cs))"

definition parse_unsigned_decimal :: "string \<Rightarrow> rat option" where
  "parse_unsigned_decimal s =
     (let ip = takeWhile (\<lambda>c. c \<noteq> CHR ''.'') s; rest = dropWhile (\<lambda>c. c \<noteq> CHR ''.'') s in
      case rest of
        [] \<Rightarrow> map_option of_int (parse_digits ip)
      | dot # fp \<Rightarrow>
          (if ip = [] \<and> fp = [] then None
           else case (if ip = [] then Some 0 else parse_digits ip) of None \<Rightarrow> None
                | Some i \<Rightarrow> (case (if fp = [] then Some 0 else parse_digits fp) of None \<Rightarrow> None
                             | Some f \<Rightarrow> Some (of_int i + of_int f / 10 ^ length fp))))"

definition parse_decimal :: "string \<Rightarrow> rat option" where
  "parse_decimal s =
     (case strip s of [] \<Rightarrow> None
      | c # cs \<Rightarrow> if c = CHR ''-'' then map_option uminus (parse_unsigned_decimal cs)
                  else if c = CHR ''+'' then parse_unsigned_decimal cs
                  else parse_unsigned_decimal (c # cs))"

text \<open>Rounding to the nearest integer, ties to even.\<close>

definition round_half_even :: "rat \<Rightarrow> int" where
  "round_half_even x =
     (let f = \<lfloor>x\<rfloor>; d = x - of_int f in
      if d < 1 / 2 then f else if 1 / 2 < d then f + 1 else if even f then f else f + 1)"

function str_digits :: "int \<Rightarrow> string" where
  "str_digits n =
     (if n < 10 then [digit_char (nat n)]
      else str_digits (n div 10) @ [digit_char (nat (n mod 10))])"
  by pat_completeness auto
termination
  by (relation "measure nat") auto

declare str_digits.simps [simp del]

definition format_2f :: "rat \<Rightarrow> string" where
  "format_2f x =
     (let n = round_half_even (\<bar>x\<bar> * 100) in
      (if x < 0 then [CHR ''-''] else []) @ str_digits (n div 100) @ [CHR ''.''] @
      [digit_char (nat (n mod 100 div 10)), digit_char (nat (n mod 10))])"

fun frac_digits :: "nat \<Rightarrow> rat \<Rightarrow> string" where
  "frac_digits 0 x = []"
| "frac_digits (Suc k) x =
     (if x = 0 then []
      else let d = \<lfloor>x * 10\<rfloor> in digit_char (nat d) # frac_digits k (x * 10 - of_int d))"

definition format_str :: "rat \<Rightarrow> string" where
  "format_str x =
     (let i = \<lfloor>\<bar>x\<bar>\<rfloor>; ds = frac_digits 17 (\<bar>x\<bar> - of_int i) in
      (if x < 0 then [CHR ''-''] else []) @ str_digits i @ [CHR ''.''] @
      (if ds = [] then [CHR ''0''] else ds))"

fun integrity_message :: "violation \<Rightarrow> string" where
  "integrity_message Check_quantity = ''CHECK constraint failed: quantity >= 0''"
| "integrity_message Check_total_amount = ''CHECK constraint failed: total_amount >= 0''"
| "integrity_message Not_null_price_per_unit =
     ''NOT NULL constraint failed: inventory.price_per_unit''"
| "integrity_message Not_null_total_amount = ''NOT NULL constraint failed: bills.total_amount''"
| "integrity_message Unique_item_name = ''UNIQUE constraint failed: inventory.item_name''"
| "integrity_message Foreign_key = ''FOREIGN KEY constraint failed''"

definition decimal_builtins :: "rat builtins" where
  "decimal_builtins =
     \<lparr>py_int = parse_int, py_float = parse_decimal, py_strip = strip, fzero = 0, fadd = (+),
      fmul_int = (\<lambda>p n. p * of_int n), fmt2f = format_2f, fstr = format_str,
      sql_is_null = (\<lambda>x. False), sql_ge0 = (\<lambda>x. 0 \<le> x), sqlite_msg = integrity_message\<rparr>"







text \<open>A small clinic: one patient, a doctor and a nurse, one stocked item.\<close>

definition paracetamol :: "rat inventory_row" where
  "paracetamol =
     \<lparr>item_id = 1, item_name = ''Paracetamol'', category = ''Medicine'',
      quantity = 50, price_per_unit = 5 / 2, reorder_level = 10\<rparr>"

definition clinic :: "rat database" where
  "clinic =
     \<lparr>patients = [\<lparr>patient_id = 1, full_name = ''Asha Roy''\<rparr>],
      staff = [\<lparr>staff_id = 1, staff_full_name = ''Lee'', role = ''Doctor'',
                specialization = Some ''Cardiology''\<rparr>,
               \<lparr>staff_id = 2, staff_full_name = ''Kim'', role = ''Nurse'',
                specialization = Some []\<rparr>],
      inventory = [paracetamol],
      appointments = [], bills = [],
      inventory_seq = 1, appointments_seq = 0, bills_seq = 0\<rparr>"

text \<open>A session on a database with nothing pending and nothing printed yet.\<close>

definition console :: "rat database \<Rightarrow> string list \<Rightarrow> rat world" where
  "console d lines = \<lparr>db = d, committed = d, stdin = lines, stdout = []\<rparr>"

text \<open>An invoice in progress with nothing on it yet, at the clinic.\<close>

definition open_invoice :: "string list \<Rightarrow> rat invoice" where
  "open_invoice lines = \<lparr>bill_items = [], running_total = 0, world = console clinic lines\<rparr>"




subsection \<open>Notions used in the statements\<close>

text \<open>The state in which a pass through the loop body leaves the invoice.\<close>

fun step_state :: "'a step \<Rightarrow> 'a" where
  "step_state (Break c) = c"
| "step_state (Continue c) = c"
| "step_state (Raise e c) = c"

text \<open>The invariant of the inventory table: no stored quantity is negative.\<close>

definition stock_nonneg :: "'m database \<Rightarrow> bool" where
  "stock_nonneg d \<longleftrightarrow> (\<forall>r\<in>set (inventory d). 0 \<le> quantity r)"

text \<open>The database with the stored quantities blanked: what composing an invoice
  leaves alone until the bill is written.\<close>

definition erase_quantities :: "'m database \<Rightarrow> 'm database" where
  "erase_quantities d = d\<lparr>inventory := map (\<lambda>r. r\<lparr>quantity := 0\<rparr>) (inventory d)\<rparr>"

text \<open>The two kinds of invoice line: the consultation fee, and a draw of \<open>q\<close> units of
  an inventory item at its unit price.\<close>

definition fee_line :: "'m builtins \<Rightarrow> 'm line \<Rightarrow> bool" where
  "fee_line L l \<longleftrightarrow> line_text l = ''Consultation: $'' @ fmt2f L (line_cost l)"

definition draw_line :: "'m builtins \<Rightarrow> 'm database \<Rightarrow> 'm line \<Rightarrow> bool" where
  "draw_line L d l \<longleftrightarrow>
     (\<exists>r\<in>set (inventory d). \<exists>q.
        line_text l = item_name r @ '' x'' @ str_int q @ '': $'' @ fmt2f L (line_cost l) \<and>
        line_cost l = fmul_int L (price_per_unit r) q)"

text \<open>What holds of an invoice throughout its composition, \<open>d\<close> being the database
  when \<^verbatim>\<open>generate_bill\<close> was called.\<close>

definition composing :: "'m builtins \<Rightarrow> 'm database \<Rightarrow> 'm invoice \<Rightarrow> bool" where
  "composing L d c \<longleftrightarrow>
     erase_quantities (db (world c)) = erase_quantities d \<and>
     running_total c = foldl (fadd L) (fzero L) (map line_cost (bill_items c)) \<and>
     (\<forall>l\<in>set (bill_items c). fee_line L l \<or> draw_line L d l)"

text \<open>The stock UPDATEs that went with a list of invoice lines, run one after the
  other on a database.\<close>

definition apply_updates :: "'m line list \<Rightarrow> 'm database \<Rightarrow> 'm database" where
  "apply_updates ls d =
     fold (\<lambda>l d'. case line_update l of None \<Rightarrow> d' | Some (iid, q) \<Rightarrow> set_quantity d' iid q) ls d"


section \<open>Properties\<close>

subsection \<open>Facts about the console and the statements\<close>

lemma find_set_quantity:
  "find (\<lambda>x. item_name x = name) rows = Some r \<Longrightarrow>
   find (\<lambda>x. item_name x = name)
     (map (\<lambda>x. if item_id x = item_id r then x\<lparr>quantity := q\<rparr> else x) rows) = Some (r\<lparr>quantity := q\<rparr>)"
  by (induction rows) (auto split: if_splits)

lemma select_item_set_quantity:
  "select_item d name = Some r \<Longrightarrow>
   select_item (set_quantity d (item_id r) q) name = Some (r\<lparr>quantity := q\<rparr>)"
  by (simp add: select_item_def set_quantity_def find_set_quantity)

lemma find_map_quantity:
  "find (\<lambda>x. item_name x = name) rows = Some r \<Longrightarrow>
   find (\<lambda>x. item_name x = name)
     (map (\<lambda>x. if item_id x = iid then x\<lparr>quantity := q\<rparr> else x) rows) =
   Some (if item_id r = iid then r\<lparr>quantity := q\<rparr> else r)"
  by (induction rows) (auto split: if_splits)

lemma select_item_after_update:
  "select_item d name = Some r \<Longrightarrow>
   select_item (set_quantity d iid q) name = Some (if item_id r = iid then r\<lparr>quantity := q\<rparr> else r)"
  by (simp add: select_item_def set_quantity_def find_map_quantity)

lemma update_quantity_ok:
  "0 \<le> q \<Longrightarrow> q < 2 ^ 63 \<Longrightarrow> update_quantity d q iid = Inr (set_quantity d iid q)"
  by (simp add: update_quantity_def int64_def)

lemma update_quantity_overflow: "2 ^ 63 \<le> q \<Longrightarrow> update_quantity d q iid = Inl OverflowError"
  by (simp add: update_quantity_def int64_def)

lemma select_item_row: "select_item d name = Some r \<Longrightarrow> r \<in> set (inventory d) \<and> item_name r = name"
  by (auto simp: select_item_def find_Some_iff in_set_conv_nth)

lemma bills_set_quantity [simp]: "bills (set_quantity d iid q) = bills d"
  by (simp add: set_quantity_def)

lemma fold_print_eq: "fold (\<lambda>x. print (f x)) xs w = w\<lparr>stdout := stdout w @ map f xs\<rparr>"
  by (induction xs arbitrary: w) (simp_all add: print_def)

lemma select_patient_None:
  "int64 pid \<Longrightarrow> select_patient d pid = Inr None \<longleftrightarrow> pid \<notin> set (map patient_id (patients d))"
  by (auto simp: select_patient_def find_None_iff)

lemma select_patient_overflow: "\<not> int64 pid \<Longrightarrow> select_patient d pid = Inl OverflowError"
  by (simp add: select_patient_def)

lemma select_patient_Some:
  "select_patient d pid = Inr (Some p) \<Longrightarrow> int64 pid \<and> pid \<in> set (map patient_id (patients d))"
  by (auto simp: select_patient_def find_Some_iff split: if_splits)



lemma db_print [simp]: "db (print s w) = db w"
  by (simp add: print_def)

lemma committed_print [simp]: "committed (print s w) = committed w"
  by (simp add: print_def)

lemma db_input_int: "input_int L w = (r, w') \<Longrightarrow> db w' = db w \<and> committed w' = committed w"
  by (auto simp: input_int_def input_def split: list.splits option.splits)

lemma db_except [simp]: "db (snd (except_ValueError msg e w)) = db w"
  by (cases e) (simp_all add: except_ValueError_def)

lemma committed_except [simp]: "committed (snd (except_ValueError msg e w)) = committed w"
  by (cases e) (simp_all add: except_ValueError_def)

lemma db_consultation_fee:
  "consultation_fee L w = (x, c) \<Longrightarrow> db (world c) = db w \<and> committed (world c) = committed w"
  by (auto simp: consultation_fee_def input_def input_float_def Let_def
      split: list.splits option.splits if_splits)

subsection \<open>Facts about the example clinic\<close>

lemma clinic_item: "select_item clinic ''Paracetamol'' = Some paracetamol"
  by (simp add: clinic_def select_item_def paracetamol_def)

lemma strip_plain: "py_strip decimal_builtins ''Paracetamol'' = ''Paracetamol''"
  by (simp add: decimal_builtins_def strip_def is_space_def)

lemma clinic_stock_nonneg: "stock_nonneg clinic"
  by (simp add: stock_nonneg_def clinic_def paracetamol_def)

lemma invoice_run_bills:
  "bills (db (snd (generate_bill decimal_builtins
      (console clinic [''1'', ''y'', ''50.00'', ''y'', ''Paracetamol'', ''5'', ''n''])))) =
   [\<lparr>bill_id = 1, bill_patient_id = 1,
     items_summary = ''Consultation: $50.00; Paracetamol x5: $12.50'',
     total_amount = 125 / 2, payment_status = ''Unpaid''\<rparr>]"
  by code_simp

subsection \<open>Stock adjustment\<close>

text \<open>
  Claim C2 as stated fails for a sum beyond the largest integer that SQLite stores. With
  a stock of \<open>50\<close> and a change of \<open>9223372036854775758\<close> the sum is \<open>2 ^ 63\<close>, which is
  not negative; binding it to the UPDATE raises \<^verbatim>\<open>OverflowError\<close>, which
  \<^verbatim>\<open>update_stock\<close> does not catch. Nothing is stored and no success is reported.
\<close>

theorem update_stock_overflow_counterexample:
  "select_item (db (console clinic [''Paracetamol'', ''9223372036854775758'']))
     (py_strip decimal_builtins ''Paracetamol'') = Some paracetamol \<and>
   quantity paracetamol = 50 \<and>
   py_int decimal_builtins ''9223372036854775758'' = Some 9223372036854775758 \<and>
   0 \<le> quantity paracetamol + 9223372036854775758 \<and>
   update_stock decimal_builtins (console clinic [''Paracetamol'', ''9223372036854775758'']) =
     (Uncaught OverflowError,
      \<lparr>db = clinic, committed = clinic, stdin = [], stdout = [''Current Stock: 50'']\<rparr>)"
  by code_simp

text \<open>
  Claim C2, amended. \<^verbatim>\<open>update_stock\<close> on an item found by name, with a change that
  \<^verbatim>\<open>int()\<close> accepts:
  \<^item> when the stored quantity plus the change is at least \<open>0\<close> and below \<open>2 ^ 63\<close>, the
    sum is stored and committed, success is reported, and the item read back has the sum
    as its quantity;
  \<^item> when the sum is negative, the error is reported and nothing is changed;
  \<^item> when the sum is \<open>2 ^ 63\<close> or more, \<^verbatim>\<open>OverflowError\<close> leaves the method and
    nothing is changed.
\<close>

theorem update_stock_adjusts:
  assumes "stdin w = s # t # rest"
    and "select_item (db w) (py_strip L s) = Some item"
    and "py_int L t = Some delta"
  shows "(0 \<le> quantity item + delta \<and> quantity item + delta < 2 ^ 63 \<longrightarrow>
            update_stock L w =
              (Returned,
               \<lparr>db = set_quantity (db w) (item_id item) (quantity item + delta),
                committed = set_quantity (db w) (item_id item) (quantity item + delta),
                stdin = rest,
                stdout = stdout w @ [''Current Stock: '' @ str_int (quantity item),
                                     ''Stock updated successfully.'']\<rparr>)
            \<and> select_item (set_quantity (db w) (item_id item) (quantity item + delta))
                  (py_strip L s)
                = Some (item\<lparr>quantity := quantity item + delta\<rparr>))
       \<and> (quantity item + delta < 0 \<longrightarrow>
            update_stock L w =
              (Returned,
               \<lparr>db = db w, committed = committed w, stdin = rest,
                stdout = stdout w @ [''Current Stock: '' @ str_int (quantity item),
                                     ''Error: Resulting stock cannot be negative.'']\<rparr>))
       \<and> (2 ^ 63 \<le> quantity item + delta \<longrightarrow>
            update_stock L w =
              (Uncaught OverflowError,
               \<lparr>db = db w, committed = committed w, stdin = rest,
                stdout = stdout w @ [''Current Stock: '' @ str_int (quantity item)]\<rparr>))"
proof (intro conjI impI)
  assume "0 \<le> quantity item + delta \<and> quantity item + delta < 2 ^ 63"
  with assms show "update_stock L w =
              (Returned,
               \<lparr>db = set_quantity (db w) (item_id item) (quantity item + delta),
                committed = set_quantity (db w) (item_id item) (quantity item + delta),
                stdin = rest,
                stdout = stdout w @ [''Current Stock: '' @ str_int (quantity item),
                                     ''Stock updated successfully.'']\<rparr>)"
    by (simp add: update_stock_def input_def input_int_def print_def execute_query_def commit_def
        Let_def update_quantity_ok)
  from assms(2) show "select_item (set_quantity (db w) (item_id item) (quantity item + delta))
                  (py_strip L s)
                = Some (item\<lparr>quantity := quantity item + delta\<rparr>)"
    by (rule select_item_set_quantity)
next
  assume "quantity item + delta < 0"
  with assms show "update_stock L w =
              (Returned,
               \<lparr>db = db w, committed = committed w, stdin = rest,
                stdout = stdout w @ [''Current Stock: '' @ str_int (quantity item),
                                     ''Error: Resulting stock cannot be negative.'']\<rparr>)"
    by (simp add: update_stock_def input_def input_int_def print_def Let_def)
next
  assume h: "2 ^ 63 \<le> quantity item + delta"
  then have "\<not> quantity item + delta < 0"
    by (smt (verit) zero_le_power)
  with h assms show "update_stock L w =
              (Uncaught OverflowError,
               \<lparr>db = db w, committed = committed w, stdin = rest,
                stdout = stdout w @ [''Current Stock: '' @ str_int (quantity item)]\<rparr>)"
    by (simp add: update_stock_def input_def input_int_def print_def execute_query_def Let_def
        update_quantity_overflow except_ValueError_def)
qed

theorem update_stock_adjusts_witness:
  "select_item (db (snd (update_stock decimal_builtins (console clinic [''Paracetamol'', ''-5'']))))
     ''Paracetamol'' = Some (paracetamol\<lparr>quantity := 45\<rparr>)
   \<and> committed (snd (update_stock decimal_builtins (console clinic [''Paracetamol'', ''-5'']))) =
       db (snd (update_stock decimal_builtins (console clinic [''Paracetamol'', ''-5''])))
   \<and> db (snd (update_stock decimal_builtins (console clinic [''Paracetamol'', ''-51'']))) = clinic
   \<and> fst (update_stock decimal_builtins
       (console clinic [''Paracetamol'', ''9223372036854775758''])) = Uncaught OverflowError"
proof -
  have i: "select_item (db (console clinic ins)) (py_strip decimal_builtins ''Paracetamol'') =
      Some paracetamol" for ins
    by (simp add: console_def clinic_item strip_plain)
  have p1: "py_int decimal_builtins ''-5'' = Some (- 5)"
    by code_simp
  have p2: "py_int decimal_builtins ''-51'' = Some (- 51)"
    by code_simp
  have p3: "py_int decimal_builtins ''9223372036854775758'' = Some 9223372036854775758"
    by code_simp
  have s: "stdin (console clinic [a, b]) = a # b # []" for a b
    by (simp add: console_def)
  have q: "quantity paracetamol = 50" "item_id paracetamol = 1"
    by (simp_all add: paracetamol_def)
  from update_stock_adjusts [OF s i p1, THEN conjunct1] q
  have u1: "update_stock decimal_builtins (console clinic [''Paracetamol'', ''-5'']) =
      (Returned,
       \<lparr>db = set_quantity (db (console clinic [''Paracetamol'', ''-5''])) 1 45,
        committed = set_quantity (db (console clinic [''Paracetamol'', ''-5''])) 1 45,
        stdin = [],
        stdout = stdout (console clinic [''Paracetamol'', ''-5'']) @
          [''Current Stock: '' @ str_int 50, ''Stock updated successfully.'']\<rparr>)"
    and u1b: "select_item (set_quantity (db (console clinic [''Paracetamol'', ''-5''])) 1 45)
        (py_strip decimal_builtins ''Paracetamol'') = Some (paracetamol\<lparr>quantity := 45\<rparr>)"
    by simp_all
  from update_stock_adjusts [OF s i p2, THEN conjunct2, THEN conjunct1] q
  have u2: "db (snd (update_stock decimal_builtins (console clinic [''Paracetamol'', ''-51'']))) =
      clinic"
    by (simp add: console_def)
  from update_stock_adjusts [OF s i p3, THEN conjunct2, THEN conjunct2] q
  have u3: "fst (update_stock decimal_builtins
       (console clinic [''Paracetamol'', ''9223372036854775758''])) = Uncaught OverflowError"
    by simp
  from u1 u1b u2 u3 show ?thesis
    by (simp add: strip_plain)
qed

subsection \<open>Stored quantities stay non-negative\<close>

lemma stock_nonneg_update_quantity:
  "stock_nonneg d \<Longrightarrow> update_quantity d q iid = Inr d' \<Longrightarrow> stock_nonneg d'"
  by (auto simp: stock_nonneg_def set_quantity_def update_quantity_def split: if_splits)

lemma stock_nonneg_insert_item:
  "stock_nonneg d \<Longrightarrow> insert_item L d name cat qty price reorder = Inr d' \<Longrightarrow> stock_nonneg d'"
  by (auto simp: stock_nonneg_def insert_item_def Let_def split: if_splits)

lemma stock_nonneg_insert_appointment:
  "stock_nonneg d \<Longrightarrow> insert_appointment d pid did ds nts = Inr d' \<Longrightarrow> stock_nonneg d'"
  by (auto simp: stock_nonneg_def insert_appointment_def Let_def split: if_splits)

lemma stock_nonneg_insert_bill:
  "stock_nonneg d \<Longrightarrow> insert_bill L d pid s t = Inr d' \<Longrightarrow> stock_nonneg d'"
  by (auto simp: stock_nonneg_def insert_bill_def Let_def split: if_splits)

lemma stock_nonneg_add_item: "stock_nonneg (db w) \<Longrightarrow> stock_nonneg (db (snd (add_item L w)))"
  by (auto simp: add_item_def input_def input_int_def input_float_def print_def execute_query_def
        except_ValueError_def Let_def commit_def
      split: list.splits option.splits sum.splits exc.splits if_splits bool.splits prod.splits
      dest: stock_nonneg_insert_item)

lemma stock_nonneg_update_stock:
  "stock_nonneg (db w) \<Longrightarrow> stock_nonneg (db (snd (update_stock L w)))"
  by (auto simp: update_stock_def input_def input_int_def print_def execute_query_def
        except_ValueError_def Let_def commit_def
      split: list.splits option.splits sum.splits exc.splits if_splits prod.splits
      dest: stock_nonneg_update_quantity)

lemma stock_nonneg_schedule_appointment:
  "stock_nonneg (db w) \<Longrightarrow> stock_nonneg (db (snd (schedule_appointment L w)))"
  by (auto simp: schedule_appointment_def input_def input_int_def print_def execute_query_def
        except_ValueError_def Let_def fold_print_eq commit_def
      split: list.splits option.splits sum.splits exc.splits if_splits bool.splits prod.splits
      dest: stock_nonneg_insert_appointment)

lemma stock_nonneg_body:
  "stock_nonneg (db (world c)) \<Longrightarrow> stock_nonneg (db (world (step_state (bill_loop_body L c))))"
  by (auto simp: bill_loop_body_def input_def input_int_def print_def execute_query_def Let_def
        commit_def
      split: list.splits option.splits sum.splits if_splits prod.splits exc.splits
      dest: stock_nonneg_update_quantity)

lemma stock_nonneg_loop:
  "stock_nonneg (db (world c)) \<Longrightarrow> stock_nonneg (db (world (snd (bill_loop L c))))"
proof (induction L c rule: bill_loop.induct)
  case (1 L c)
  from "1.prems" have b: "stock_nonneg (db (world (step_state (bill_loop_body L c))))"
    by (rule stock_nonneg_body)
  show ?case
  proof (cases "bill_loop_body L c")
    case (Break c')
    with b show ?thesis by (simp add: bill_loop.simps [of L c])
  next
    case (Continue c')
    with b "1.IH" show ?thesis by (simp add: bill_loop.simps [of L c])
  next
    case (Raise e c')
    with b show ?thesis by (simp add: bill_loop.simps [of L c])
  qed
qed

lemma stock_nonneg_write_bill:
  "stock_nonneg (db (world c)) \<Longrightarrow> stock_nonneg (db (snd (write_bill L pid p c)))"
  by (auto simp: write_bill_def execute_query_def Let_def fold_print_eq print_def commit_def
      split: sum.splits prod.splits exc.splits dest: stock_nonneg_insert_bill)

lemma stock_nonneg_generate_bill:
  assumes "stock_nonneg (db w)"
  shows "stock_nonneg (db (snd (generate_bill L w)))"
proof -
  let ?w0 = "print (CHR 0x0A # ''--- GENERATE INVOICE ---'') w"
  have "stock_nonneg (db (snd (generate_bill_try L ?w0)))"
  proof (cases "input_int L ?w0")
    case (Pair r w1)
    have w1: "db w1 = db w"
      using db_input_int [OF Pair] by simp
    show ?thesis
    proof (cases r)
      case (Inl e)
      with Pair w1 assms show ?thesis by (simp add: generate_bill_try_def)
    next
      case (Inr pid)
      show ?thesis
      proof (cases "select_patient (db w1) pid")
        case (Inl e)
        with Pair Inr w1 assms show ?thesis by (simp add: generate_bill_try_def)
      next
        case sel: (Inr po)
        show ?thesis
        proof (cases po)
          case None
          with sel Pair Inr w1 assms show ?thesis by (simp add: generate_bill_try_def)
        next
          case (Some p)
          let ?w2 = "print (''Invoicing for: '' @ full_name p) w1"
          obtain x c0 where f: "consultation_fee L ?w2 = (x, c0)"
            by (cases "consultation_fee L ?w2")
          have c0: "stock_nonneg (db (world c0))"
            using db_consultation_fee [OF f] w1 assms by simp
          obtain y c1 where l: "bill_loop L c0 = (y, c1)"
            by (cases "bill_loop L c0")
          have c1: "stock_nonneg (db (world c1))"
            using stock_nonneg_loop [OF c0, of L] l by simp
          from Pair Inr sel Some f l c0 c1 show ?thesis
            by (auto simp: generate_bill_try_def stock_nonneg_write_bill split: option.splits)
        qed
      qed
    qed
  qed
  then show ?thesis
    by (cases "generate_bill_try L ?w0") (auto simp: generate_bill_def split: option.splits)
qed

text \<open>
  Claim C3. No stored quantity is ever negative: each operation that writes to the
  database (\<^verbatim>\<open>add_item\<close>, \<^verbatim>\<open>update_stock\<close>, \<^verbatim>\<open>schedule_appointment\<close>,
  \<^verbatim>\<open>generate_bill\<close>) preserves the invariant, and so does every single pass through
  the invoice loop, whatever the input.
\<close>

theorem stock_never_negative:
  "(stock_nonneg (db w) \<longrightarrow>
      stock_nonneg (db (snd (add_item L w))) \<and>
      stock_nonneg (db (snd (update_stock L w))) \<and>
      stock_nonneg (db (snd (schedule_appointment L w))) \<and>
      stock_nonneg (db (snd (generate_bill L w))))
   \<and> (stock_nonneg (db (world c)) \<longrightarrow>
        stock_nonneg (db (world (step_state (bill_loop_body L c)))))"
  by (simp add: stock_nonneg_add_item stock_nonneg_update_stock stock_nonneg_schedule_appointment
      stock_nonneg_generate_bill stock_nonneg_body)

theorem stock_never_negative_witness:
  "stock_nonneg (db (console clinic [''1'', ''n'', ''y'', ''Paracetamol'', ''-5'', ''n''])) \<and>
   stock_nonneg (db (snd (add_item decimal_builtins (console clinic [''Gauze'', ''Kit'', ''-3'', ''1.25'', []])))) \<and>
   stock_nonneg (db (snd (update_stock decimal_builtins (console clinic [''Paracetamol'', ''-50''])))) \<and>
   stock_nonneg (db (snd (generate_bill decimal_builtins
      (console clinic [''1'', ''n'', ''y'', ''Paracetamol'', ''-5'', ''n''])))) \<and>
   stock_nonneg (db (world (step_state (bill_loop_body decimal_builtins
      (open_invoice [''y'', ''Paracetamol'', ''50''])))))"
proof -
  have h: "stock_nonneg (db (console clinic ins))" for ins
    by (simp add: console_def clinic_stock_nonneg)
  have g: "stock_nonneg (db (world (open_invoice ins)))" for ins
    by (simp add: open_invoice_def console_def clinic_stock_nonneg)
  from h g
    stock_never_negative [of "console clinic [''Gauze'', ''Kit'', ''-3'', ''1.25'', []]" decimal_builtins]
    stock_never_negative [of "console clinic [''Paracetamol'', ''-50'']" decimal_builtins]
    stock_never_negative [of "console clinic [''1'', ''n'', ''y'', ''Paracetamol'', ''-5'', ''n'']"
      decimal_builtins "open_invoice [''y'', ''Paracetamol'', ''50'']"]
  show ?thesis
    by blast
qed

subsection \<open>Scheduling an appointment\<close>






subsection \<open>One pass of the invoice loop\<close>




text \<open>
  Claim C5. A draw whose requested quantity exceeds the available stock is refused:
  the message names the available count, no line is added, the total and the database
  are unchanged, and the loop continues with the next question.
\<close>

theorem draw_exceeding_stock:
  assumes "stdin (world c) = a # name # q # rest"
    and "lower a = ''y''"
    and "select_item (db (world c)) name = Some r"
    and "py_int L q = Some n"
    and "quantity r < n"
  shows "bill_loop_body L c =
           Continue (c\<lparr>world := \<lparr>db = db (world c), committed = committed (world c), stdin = rest,
              stdout = stdout (world c) @
                [''Price: $'' @ fstr L (price_per_unit r) @ ''/unit | Available: '' @
                   str_int (quantity r),
                 ''Error: Insufficient stock. Only '' @ str_int (quantity r) @ '' available.'']\<rparr>\<rparr>)"
  using assms
  by (simp add: bill_loop_body_def input_def input_int_def print_def Let_def)

theorem draw_exceeding_stock_witness:
  "bill_loop_body decimal_builtins
     \<lparr>bill_items = [], running_total = 0,
      world = console (set_quantity clinic 1 3) [''y'', ''Paracetamol'', ''5'', ''n'']\<rparr> =
   Continue \<lparr>bill_items = [], running_total = 0,
             world = \<lparr>db = set_quantity clinic 1 3, committed = set_quantity clinic 1 3,
                      stdin = [''n''],
                      stdout = [''Price: $2.5/unit | Available: 3'',
                                ''Error: Insufficient stock. Only 3 available.'']\<rparr>\<rparr>"
proof -
  let ?c = "\<lparr>bill_items = [], running_total = 0,
      world = console (set_quantity clinic 1 3) [''y'', ''Paracetamol'', ''5'', ''n'']\<rparr> :: rat invoice"
  have s: "stdin (world ?c) = ''y'' # ''Paracetamol'' # ''5'' # [''n'']"
    by (simp add: console_def)
  have y: "lower ''y'' = ''y''"
    by code_simp
  have i: "select_item (db (world ?c)) ''Paracetamol'' = Some (paracetamol\<lparr>quantity := 3\<rparr>)"
    using select_item_set_quantity [OF clinic_item, of 3] by (simp add: console_def paracetamol_def)
  have p: "py_int decimal_builtins ''5'' = Some 5"
    by code_simp
  have lt: "quantity (paracetamol\<lparr>quantity := 3\<rparr>) < 5"
    by simp
  have g: "fstr decimal_builtins (5 / 2) = ''2.5''"
    by code_simp
  have n: "str_int 3 = ''3''"
    by code_simp
  from draw_exceeding_stock [OF s y i p lt] g n show ?thesis
    by (simp add: console_def paracetamol_def)
qed





subsection \<open>Whole invoices\<close>

text \<open>
  Claim C7 as stated fails for a patient id outside the signed 64-bit range: the id
  \<open>9223372036854775808\<close> belongs to no patient, yet \<^verbatim>\<open>generate_bill\<close> prints no
  patient error. The SELECT raises \<^verbatim>\<open>OverflowError\<close> while binding the id, and the
  exception leaves the method. The database is unchanged.
\<close>

theorem invoice_overflow_counterexample:
  "py_int decimal_builtins ''9223372036854775808'' = Some 9223372036854775808 \<and>
   9223372036854775808 \<notin> set (map patient_id (patients clinic)) \<and>
   generate_bill decimal_builtins (console clinic [''9223372036854775808'', ''n'', ''n'']) =
     (Uncaught OverflowError,
      \<lparr>db = clinic, committed = clinic, stdin = [''n'', ''n''],
       stdout = [CHR 0x0A # ''--- GENERATE INVOICE ---'']\<rparr>)"
  by code_simp

text \<open>
  Claim C7, amended. \<^verbatim>\<open>generate_bill\<close> for a patient id that is not in the patients
  table creates no bill and changes no stored quantity. When the id is in the signed
  64-bit range the method prints the patient error and returns; otherwise
  \<^verbatim>\<open>OverflowError\<close> leaves it.
\<close>

theorem invoice_for_unknown_patient:
  assumes "stdin w = pid_s # rest"
    and "py_int L pid_s = Some pid"
    and "pid \<notin> set (map patient_id (patients (db w)))"
  shows "(int64 pid \<longrightarrow>
            generate_bill L w =
              (Returned, \<lparr>db = db w, committed = committed w, stdin = rest,
                 stdout = stdout w @ [CHR 0x0A # ''--- GENERATE INVOICE ---'',
                                      ''Patient not found.'']\<rparr>))
       \<and> (\<not> int64 pid \<longrightarrow>
            generate_bill L w =
              (Uncaught OverflowError, \<lparr>db = db w, committed = committed w, stdin = rest,
                 stdout = stdout w @ [CHR 0x0A # ''--- GENERATE INVOICE ---'']\<rparr>))
       \<and> bills (db (snd (generate_bill L w))) = bills (db w)
       \<and> inventory (db (snd (generate_bill L w))) = inventory (db w)
       \<and> bills (committed (snd (generate_bill L w))) = bills (committed w)
       \<and> inventory (committed (snd (generate_bill L w))) = inventory (committed w)"
proof -
  have a: "generate_bill L w =
              (Returned, \<lparr>db = db w, committed = committed w, stdin = rest,
                 stdout = stdout w @ [CHR 0x0A # ''--- GENERATE INVOICE ---'',
                                      ''Patient not found.'']\<rparr>)" if "int64 pid"
  proof -
    from that assms(3) have "select_patient (db w) pid = Inr None"
      by (simp add: select_patient_None)
    with assms(1,2) show ?thesis
      by (simp add: generate_bill_def generate_bill_try_def input_int_def input_def print_def)
  qed
  have b: "generate_bill L w =
              (Uncaught OverflowError, \<lparr>db = db w, committed = committed w, stdin = rest,
                 stdout = stdout w @ [CHR 0x0A # ''--- GENERATE INVOICE ---'']\<rparr>)"
    if "\<not> int64 pid"
  proof -
    from that have "select_patient (db w) pid = Inl OverflowError"
      by (rule select_patient_overflow)
    with assms(1,2) show ?thesis
      by (simp add: generate_bill_def generate_bill_try_def input_int_def input_def print_def
          except_ValueError_def)
  qed
  from a b show ?thesis
    by (cases "int64 pid") simp_all
qed

theorem invoice_for_unknown_patient_witness:
  "generate_bill decimal_builtins (console clinic [''7'', ''y'', ''50.00'']) =
     (Returned, \<lparr>db = clinic, committed = clinic, stdin = [''y'', ''50.00''],
        stdout = [CHR 0x0A # ''--- GENERATE INVOICE ---'', ''Patient not found.'']\<rparr>)
   \<and> bills (db (snd (generate_bill decimal_builtins
        (console clinic [''9223372036854775808'', ''y'', ''50.00''])))) = []
   \<and> inventory (db (snd (generate_bill decimal_builtins
        (console clinic [''9223372036854775808'', ''y'', ''50.00''])))) = [paracetamol]"
proof -
  have s: "stdin (console clinic (a # rest)) = a # rest" for a rest
    by (simp add: console_def)
  have p: "py_int decimal_builtins ''7'' = Some 7"
    "py_int decimal_builtins ''9223372036854775808'' = Some 9223372036854775808"
    by code_simp+
  have n: "7 \<notin> set (map patient_id (patients (db (console clinic ins))))"
    "9223372036854775808 \<notin> set (map patient_id (patients (db (console clinic ins))))" for ins
    by (simp_all add: console_def clinic_def)
  have r: "int64 7"
    by (simp add: int64_def)
  have c: "bills clinic = []" "inventory clinic = [paracetamol]"
    by (simp_all add: clinic_def)
  from invoice_for_unknown_patient [OF s p(1) n(1), THEN conjunct1] r
    invoice_for_unknown_patient [OF s p(2) n(2), THEN conjunct2, THEN conjunct2]
  show ?thesis
    by (simp add: console_def c)
qed

lemma erase_set_quantity: "erase_quantities (set_quantity d iid q) = erase_quantities d"
  by (simp add: erase_quantities_def set_quantity_def comp_def if_distrib [of "\<lambda>r. r\<lparr>quantity := 0\<rparr>"]
      cong: if_cong)

lemma erase_update_quantity: "update_quantity d q iid = Inr d' \<Longrightarrow> erase_quantities d' = erase_quantities d"
  by (auto simp: update_quantity_def erase_set_quantity split: if_splits)

lemma erase_eq_bills:
  assumes "erase_quantities d' = erase_quantities d"
  shows "bills d' = bills d" and "bills_seq d' = bills_seq d" and "patients d' = patients d"
proof -
  from assms have "bills (erase_quantities d') = bills (erase_quantities d)"
    and "bills_seq (erase_quantities d') = bills_seq (erase_quantities d)"
    and "patients (erase_quantities d') = patients (erase_quantities d)"
    by simp_all
  then show "bills d' = bills d" and "bills_seq d' = bills_seq d" and "patients d' = patients d"
    by (simp_all add: erase_quantities_def)
qed

lemma erase_eq_rows:
  assumes "erase_quantities d' = erase_quantities d" and "r \<in> set (inventory d')"
  shows "\<exists>r0\<in>set (inventory d). item_name r0 = item_name r \<and> price_per_unit r0 = price_per_unit r"
proof -
  from assms(1) have "inventory (erase_quantities d') = inventory (erase_quantities d)"
    by simp
  then have "map (\<lambda>r. r\<lparr>quantity := 0\<rparr>) (inventory d') = map (\<lambda>r. r\<lparr>quantity := 0\<rparr>) (inventory d)"
    by (simp add: erase_quantities_def)
  then have "(\<lambda>r. r\<lparr>quantity := 0\<rparr>) ` set (inventory d') = (\<lambda>r. r\<lparr>quantity := 0\<rparr>) ` set (inventory d)"
    by (metis set_map)
  moreover from assms(2) have "r\<lparr>quantity := 0\<rparr> \<in> (\<lambda>r. r\<lparr>quantity := 0\<rparr>) ` set (inventory d')"
    by (rule imageI)
  ultimately have "r\<lparr>quantity := 0\<rparr> \<in> (\<lambda>r. r\<lparr>quantity := 0\<rparr>) ` set (inventory d)"
    by simp
  then obtain r0 where r0: "r0 \<in> set (inventory d)" and e: "r0\<lparr>quantity := 0\<rparr> = r\<lparr>quantity := 0\<rparr>"
    by (auto simp: image_iff)
  from e have "item_name (r0\<lparr>quantity := 0\<rparr>) = item_name (r\<lparr>quantity := 0\<rparr>)"
    and "price_per_unit (r0\<lparr>quantity := 0\<rparr>) = price_per_unit (r\<lparr>quantity := 0\<rparr>)"
    by simp_all
  with r0 show ?thesis by auto
qed

lemma draw_line_found:
  assumes "erase_quantities d' = erase_quantities d" and "select_item d' name = Some r"
  shows "draw_line L d \<lparr>line_text = name @ '' x'' @ str_int q @ '': $'' @
                fmt2f L (fmul_int L (price_per_unit r) q),
             line_cost = fmul_int L (price_per_unit r) q, line_update = u\<rparr>"
proof -
  from select_item_row [OF assms(2)] have r: "r \<in> set (inventory d')" and n: "item_name r = name"
    by simp_all
  from erase_eq_rows [OF assms(1) r] obtain r0 where "r0 \<in> set (inventory d)"
    and "item_name r0 = item_name r" and "price_per_unit r0 = price_per_unit r"
    by blast
  with n show ?thesis
    unfolding draw_line_def by (intro bexI [of _ r0] exI [of _ q]) simp_all
qed

text \<open>The three ways a pass through the loop body can go once an item was found and a
  quantity read that is not above the stock.\<close>

lemma bill_loop_body_update:
  assumes "stdin (world c) = a # name # q # rest"
    and "lower a = ''y''"
    and "select_item (db (world c)) name = Some r"
    and "py_int L q = Some n"
    and "n \<le> quantity r"
  shows "bill_loop_body L c =
     (if quantity r - n < 2 ^ 63 then
        Continue
          \<lparr>bill_items = bill_items c @
             [\<lparr>line_text = name @ '' x'' @ str_int n @ '': $'' @
                  fmt2f L (fmul_int L (price_per_unit r) n),
               line_cost = fmul_int L (price_per_unit r) n,
               line_update = Some (item_id r, quantity r - n)\<rparr>],
           running_total = fadd L (running_total c) (fmul_int L (price_per_unit r) n),
           world = \<lparr>db = set_quantity (db (world c)) (item_id r) (quantity r - n),
              committed = set_quantity (db (world c)) (item_id r) (quantity r - n),
              stdin = rest,
              stdout = stdout (world c) @
                [''Price: $'' @ fstr L (price_per_unit r) @ ''/unit | Available: '' @
                   str_int (quantity r),
                 ''Added '' @ name @ '' to bill and updated inventory.'']\<rparr>\<rparr>
      else
        Raise OverflowError
          (c\<lparr>world := \<lparr>db = db (world c), committed = committed (world c), stdin = rest,
              stdout = stdout (world c) @
                [''Price: $'' @ fstr L (price_per_unit r) @ ''/unit | Available: '' @
                   str_int (quantity r)]\<rparr>\<rparr>))"
proof (cases "quantity r - n < 2 ^ 63")
  case True
  with assms show ?thesis
    by (simp add: bill_loop_body_def input_def input_int_def print_def execute_query_def Let_def
        update_quantity_ok commit_def)
next
  case False
  then have "update_quantity (db (world c)) (quantity r - n) (item_id r) = Inl OverflowError"
    by (simp add: update_quantity_overflow)
  with False assms show ?thesis
    by (simp add: bill_loop_body_def input_def input_int_def print_def execute_query_def Let_def)
qed

lemma composing_body:
  assumes "composing L d c"
  shows "composing L d (step_state (bill_loop_body L c))"
proof (cases "stdin (world c)")
  case Nil
  with assms show ?thesis
    by (simp add: bill_loop_body_def input_def composing_def)
next
  case (Cons a rest)
  note a = Cons
  show ?thesis
  proof (cases "lower a = ''y''")
    case False
    with a assms show ?thesis
      by (simp add: bill_loop_body_def input_def composing_def)
  next
    case True
    note y = True
    show ?thesis
    proof (cases rest)
      case Nil
      with a y assms show ?thesis
        by (simp add: bill_loop_body_def input_def composing_def)
    next
      case (Cons name rest2)
      note nm = Cons
      show ?thesis
      proof (cases "select_item (db (world c)) name")
        case None
        with a y nm assms show ?thesis
          by (simp add: bill_loop_body_def input_def composing_def print_def)
      next
        case (Some r)
        note r = Some
        show ?thesis
        proof (cases rest2)
          case Nil
          with a y nm r assms show ?thesis
            by (simp add: bill_loop_body_def input_def input_int_def composing_def print_def Let_def)
        next
          case (Cons q rest3)
          note q = Cons
          show ?thesis
          proof (cases "py_int L q")
            case None
            with a y nm r q assms show ?thesis
              by (simp add: bill_loop_body_def input_def input_int_def composing_def print_def Let_def)
          next
            case (Some n)
            show ?thesis
            proof (cases "n \<le> quantity r")
              case False
              with a y nm r q Some assms show ?thesis
                by (simp add: bill_loop_body_def input_def input_int_def composing_def print_def Let_def)
            next
              case True
              from assms have e: "erase_quantities (db (world c)) = erase_quantities d"
                by (simp add: composing_def)
              from a nm q have s: "stdin (world c) = a # name # q # rest3"
                by simp
              note b = bill_loop_body_update [OF s y r Some True]
              from draw_line_found [OF e r]
              have dl: "draw_line L d \<lparr>line_text = name @ '' x'' @ str_int n @ '': $'' @
                  fmt2f L (fmul_int L (price_per_unit r) n),
                line_cost = fmul_int L (price_per_unit r) n,
                line_update = Some (item_id r, quantity r - n)\<rparr>" .
              from assms e dl show ?thesis
                unfolding b by (simp add: composing_def erase_set_quantity)
            qed
          qed
        qed
      qed
    qed
  qed
qed

lemma composing_loop: "composing L d c \<Longrightarrow> composing L d (snd (bill_loop L c))"
proof (induction L c rule: bill_loop.induct)
  case (1 L c)
  from "1.prems" have b: "composing L d (step_state (bill_loop_body L c))"
    by (rule composing_body)
  show ?case
  proof (cases "bill_loop_body L c")
    case (Break c')
    with b show ?thesis by (simp add: bill_loop.simps [of L c])
  next
    case (Continue c')
    with b "1.IH" show ?thesis by (simp add: bill_loop.simps [of L c])
  next
    case (Raise e c')
    with b show ?thesis by (simp add: bill_loop.simps [of L c])
  qed
qed

lemma composing_consultation_fee: "consultation_fee L w = (x, c) \<Longrightarrow> composing L (db w) c"
  by (auto simp: consultation_fee_def input_def input_float_def Let_def composing_def fee_line_def
      split: list.splits option.splits if_splits)

lemma write_bill_bills:
  "bills (db (snd (write_bill L pid p c))) = bills (db (world c)) \<or>
   fst (write_bill L pid p c) = None \<and>
   bills (db (snd (write_bill L pid p c))) = bills (db (world c)) @
     [\<lparr>bill_id = next_rowid (map bill_id (bills (db (world c)))) (bills_seq (db (world c))),
       bill_patient_id = pid, items_summary = join ''; '' (map line_text (bill_items c)),
       total_amount = running_total c, payment_status = ''Unpaid''\<rparr>]"
  by (simp add: write_bill_def execute_query_def insert_bill_def Let_def fold_print_eq print_def
      commit_def)

lemma write_bill_total_shown:
  "fst (write_bill L pid p c) = None \<Longrightarrow>
   ''TOTAL PAYABLE: $'' @ fmt2f L (running_total c) \<in> set (stdout (snd (write_bill L pid p c)))"
  by (auto simp: write_bill_def execute_query_def Let_def fold_print_eq print_def commit_def
      split: sum.splits prod.splits exc.splits)

lemma bill_loop_raise_bills:
  assumes "composing L d c0" and "bill_loop L c0 = (x, c1)"
  shows "bills (db (world c1)) = bills d" and "bills_seq (db (world c1)) = bills_seq d"
proof -
  from composing_loop [OF assms(1)] assms(2) have "composing L d c1"
    by simp
  then have "erase_quantities (db (world c1)) = erase_quantities d"
    by (simp add: composing_def)
  then show "bills (db (world c1)) = bills d" and "bills_seq (db (world c1)) = bills_seq d"
    by (rule erase_eq_bills)+
qed

lemma generate_bill_try_bills:
  "bills (db (snd (generate_bill_try L w))) = bills (db w) \<or>
   (\<exists>c pid. composing L (db w) c \<and> fst (generate_bill_try L w) = None \<and>
      bills (db (snd (generate_bill_try L w))) = bills (db w) @
        [\<lparr>bill_id = next_rowid (map bill_id (bills (db w))) (bills_seq (db w)),
          bill_patient_id = pid, items_summary = join ''; '' (map line_text (bill_items c)),
          total_amount = running_total c, payment_status = ''Unpaid''\<rparr>] \<and>
      ''TOTAL PAYABLE: $'' @ fmt2f L (running_total c) \<in> set (stdout (snd (generate_bill_try L w))))"
proof (cases "input_int L w")
  case (Pair r w1)
  have w1: "db w1 = db w"
    using db_input_int [OF Pair] by simp
  show ?thesis
  proof (cases r)
    case (Inl e)
    with Pair w1 show ?thesis by (simp add: generate_bill_try_def)
  next
    case (Inr pid)
    show ?thesis
    proof (cases "select_patient (db w1) pid")
      case (Inl e)
      with Pair Inr w1 show ?thesis by (simp add: generate_bill_try_def)
    next
      case sel: (Inr po)
      show ?thesis
      proof (cases po)
        case None
        with sel Pair Inr w1 show ?thesis by (simp add: generate_bill_try_def)
      next
        case (Some p)
        note sp = sel [unfolded Some]
        let ?w2 = "print (''Invoicing for: '' @ full_name p) w1"
        obtain x c0 where f: "consultation_fee L ?w2 = (x, c0)"
          by (cases "consultation_fee L ?w2")
        from composing_consultation_fee [OF f] w1 have c0: "composing L (db w) c0"
          by simp
        from db_consultation_fee [OF f] w1 have d0: "db (world c0) = db w"
          by simp
        show ?thesis
        proof (cases x)
          case (Some e)
          with Pair Inr sp f d0 show ?thesis
            by (simp add: generate_bill_try_def)
        next
          case None
          note x = None
          obtain y c1 where l: "bill_loop L c0 = (y, c1)"
            by (cases "bill_loop L c0")
          from composing_loop [OF c0, of ] l have c1: "composing L (db w) c1"
            by simp
          note b = bill_loop_raise_bills [OF c0 l]
          show ?thesis
          proof (cases y)
            case (Some e)
            with Pair Inr sp f x l b show ?thesis
              by (simp add: generate_bill_try_def)
          next
            case None
            have r: "generate_bill_try L w = write_bill L pid p c1"
              using Pair Inr sp f x l None
              by (simp add: generate_bill_try_def)
            from write_bill_bills [of L pid p c1] show ?thesis
            proof
              assume "bills (db (snd (write_bill L pid p c1))) = bills (db (world c1))"
              with r b show ?thesis by simp
            next
              assume h: "fst (write_bill L pid p c1) = None \<and>
                bills (db (snd (write_bill L pid p c1))) = bills (db (world c1)) @
                [\<lparr>bill_id = next_rowid (map bill_id (bills (db (world c1)))) (bills_seq (db (world c1))),
                  bill_patient_id = pid, items_summary = join ''; '' (map line_text (bill_items c1)),
                  total_amount = running_total c1, payment_status = ''Unpaid''\<rparr>]"
              with r b c1 write_bill_total_shown [of L pid p c1] show ?thesis
                by (intro disjI2 exI [of _ c1] exI [of _ pid]) simp
            qed
          qed
        qed
      qed
    qed
  qed
qed

lemma generate_bill_bills:
  "bills (db (snd (generate_bill L w))) = bills (db w) \<or>
   (\<exists>c pid. composing L (db w) c \<and>
      bills (db (snd (generate_bill L w))) = bills (db w) @
        [\<lparr>bill_id = next_rowid (map bill_id (bills (db w))) (bills_seq (db w)),
          bill_patient_id = pid, items_summary = join ''; '' (map line_text (bill_items c)),
          total_amount = running_total c, payment_status = ''Unpaid''\<rparr>] \<and>
      ''TOTAL PAYABLE: $'' @ fmt2f L (running_total c) \<in> set (stdout (snd (generate_bill L w))))"
proof -
  let ?w0 = "print (CHR 0x0A # ''--- GENERATE INVOICE ---'') w"
  obtain x w1 where t: "generate_bill_try L ?w0 = (x, w1)"
    by (cases "generate_bill_try L ?w0")
  from generate_bill_try_bills [of L ?w0] show ?thesis
  proof
    assume "bills (db (snd (generate_bill_try L ?w0))) = bills (db ?w0)"
    with t have "bills (db (snd (generate_bill L w))) = bills (db w)"
      by (cases x) (simp_all add: generate_bill_def)
    then show ?thesis ..
  next
    assume "\<exists>c pid. composing L (db ?w0) c \<and> fst (generate_bill_try L ?w0) = None \<and>
      bills (db (snd (generate_bill_try L ?w0))) = bills (db ?w0) @
        [\<lparr>bill_id = next_rowid (map bill_id (bills (db ?w0))) (bills_seq (db ?w0)),
          bill_patient_id = pid, items_summary = join ''; '' (map line_text (bill_items c)),
          total_amount = running_total c, payment_status = ''Unpaid''\<rparr>] \<and>
      ''TOTAL PAYABLE: $'' @ fmt2f L (running_total c) \<in> set (stdout (snd (generate_bill_try L ?w0)))"
    then obtain c pid where "composing L (db ?w0) c" and "fst (generate_bill_try L ?w0) = None"
      and "bills (db (snd (generate_bill_try L ?w0))) = bills (db ?w0) @
        [\<lparr>bill_id = next_rowid (map bill_id (bills (db ?w0))) (bills_seq (db ?w0)),
          bill_patient_id = pid, items_summary = join ''; '' (map line_text (bill_items c)),
          total_amount = running_total c, payment_status = ''Unpaid''\<rparr>]"
      and "''TOTAL PAYABLE: $'' @ fmt2f L (running_total c) \<in> set (stdout (snd (generate_bill_try L ?w0)))"
      by blast
    with t show ?thesis
      by (intro disjI2 exI [of _ c] exI [of _ pid]) (simp add: generate_bill_def)
  qed
qed




text \<open>
  Claim C10. \<^verbatim>\<open>generate_bill\<close> leaves the bills table as it was or appends one bill,
  and the appended bill has payment status \<^verbatim>\<open>'Unpaid'\<close>, which is not the column default
  \<^verbatim>\<open>'Pending'\<close>.
\<close>

theorem new_bill_is_unpaid:
  "bills (db (snd (generate_bill L w))) = bills (db w) \<or>
   (\<exists>b. bills (db (snd (generate_bill L w))) = bills (db w) @ [b] \<and>
        payment_status b = ''Unpaid'' \<and> payment_status b \<noteq> payment_status_default)"
  using generate_bill_bills [of L w] by (auto simp: payment_status_default_def)

theorem new_bill_is_unpaid_witness:
  "\<exists>b. bills (db (snd (generate_bill decimal_builtins
          (console clinic [''1'', ''y'', ''50.00'', ''y'', ''Paracetamol'', ''5'', ''n''])))) =
        bills clinic @ [b] \<and> payment_status b = ''Unpaid'' \<and> payment_status b \<noteq> ''Pending''"
proof -
  let ?w = "console clinic [''1'', ''y'', ''50.00'', ''y'', ''Paracetamol'', ''5'', ''n'']"
  have d: "db ?w = clinic"
    by (simp add: console_def)
  have e: "bills clinic = []"
    by (simp add: clinic_def)
  from new_bill_is_unpaid [of decimal_builtins ?w] show ?thesis
    by (simp add: invoice_run_bills d e payment_status_default_def)
qed

subsection \<open>Debits are committed one by one\<close>

lemma bills_apply_updates [simp]: "bills (apply_updates ls d) = bills d"
  unfolding apply_updates_def
  by (induction ls arbitrary: d) (simp_all split: option.splits)

lemma apply_updates_append:
  "apply_updates (xs @ ys) d = apply_updates ys (apply_updates xs d)"
  by (simp add: apply_updates_def)

lemma apply_updates_Nil [simp]: "apply_updates [] d = d"
  by (simp add: apply_updates_def)

lemma body_updates:
  assumes "committed (world c) = db (world c)"
  shows "\<exists>ls. bill_items (step_state (bill_loop_body L c)) = bill_items c @ ls \<and>
           db (world (step_state (bill_loop_body L c))) = apply_updates ls (db (world c)) \<and>
           committed (world (step_state (bill_loop_body L c))) =
             db (world (step_state (bill_loop_body L c)))"
proof (cases "stdin (world c)")
  case Nil
  with assms show ?thesis
    by (simp add: bill_loop_body_def input_def)
next
  case (Cons a rest)
  note a = Cons
  show ?thesis
  proof (cases "lower a = ''y''")
    case False
    with a assms show ?thesis
      by (simp add: bill_loop_body_def input_def)
  next
    case True
    note y = True
    show ?thesis
    proof (cases rest)
      case Nil
      with a y assms show ?thesis
        by (simp add: bill_loop_body_def input_def)
    next
      case (Cons name rest2)
      note nm = Cons
      show ?thesis
      proof (cases "select_item (db (world c)) name")
        case None
        with a y nm assms show ?thesis
          by (simp add: bill_loop_body_def input_def print_def)
      next
        case (Some r)
        note r = Some
        show ?thesis
        proof (cases rest2)
          case Nil
          with a y nm r assms show ?thesis
            by (simp add: bill_loop_body_def input_def input_int_def print_def Let_def)
        next
          case (Cons q rest3)
          note q = Cons
          show ?thesis
          proof (cases "py_int L q")
            case None
            with a y nm r q assms show ?thesis
              by (simp add: bill_loop_body_def input_def input_int_def print_def Let_def)
          next
            case (Some n)
            show ?thesis
            proof (cases "n \<le> quantity r")
              case False
              with a y nm r q Some assms show ?thesis
                by (simp add: bill_loop_body_def input_def input_int_def print_def Let_def)
            next
              case True
              from a nm q have s: "stdin (world c) = a # name # q # rest3"
                by simp
              note b = bill_loop_body_update [OF s y r Some True]
              from assms show ?thesis
                unfolding b by (simp add: apply_updates_def)
            qed
          qed
        qed
      qed
    qed
  qed
qed

lemma loop_updates:
  "committed (world c) = db (world c) \<Longrightarrow>
   \<exists>ls. bill_items (snd (bill_loop L c)) = bill_items c @ ls \<and>
        db (world (snd (bill_loop L c))) = apply_updates ls (db (world c)) \<and>
        committed (world (snd (bill_loop L c))) = db (world (snd (bill_loop L c)))"
proof (induction L c rule: bill_loop.induct)
  case (1 L c)
  from body_updates [OF "1.prems", of L] obtain ls
    where i: "bill_items (step_state (bill_loop_body L c)) = bill_items c @ ls"
      and d: "db (world (step_state (bill_loop_body L c))) = apply_updates ls (db (world c))"
      and k: "committed (world (step_state (bill_loop_body L c))) =
                db (world (step_state (bill_loop_body L c)))"
    by blast
  show ?case
  proof (cases "bill_loop_body L c")
    case (Break c')
    with i d k show ?thesis by (simp add: bill_loop.simps [of L c])
  next
    case (Raise e c')
    with i d k show ?thesis by (simp add: bill_loop.simps [of L c])
  next
    case (Continue c')
    with k have "committed (world c') = db (world c')"
      by simp
    from "1.IH" [OF Continue this] obtain ls'
      where i': "bill_items (snd (bill_loop L c')) = bill_items c' @ ls'"
        and d': "db (world (snd (bill_loop L c'))) = apply_updates ls' (db (world c'))"
        and k': "committed (world (snd (bill_loop L c'))) = db (world (snd (bill_loop L c')))"
      by blast
    from Continue i d have "bill_items c' = bill_items c @ ls"
      and "db (world c') = apply_updates ls (db (world c))"
      by simp_all
    with i' d' k' Continue show ?thesis
      by (intro exI [of _ "ls @ ls'"]) (simp add: bill_loop.simps [of L c] apply_updates_append)
  qed
qed

lemma committed_write_bill:
  "committed (world c) = db (world c) \<Longrightarrow>
   committed (snd (write_bill L pid p c)) = db (snd (write_bill L pid p c))"
  by (auto simp: write_bill_def execute_query_def Let_def fold_print_eq print_def commit_def
      split: sum.splits prod.splits exc.splits)

lemma generate_bill_try_committed:
  assumes "committed w = db w"
  shows "committed (snd (generate_bill_try L w)) = db (snd (generate_bill_try L w))"
proof (cases "input_int L w")
  case (Pair r w1)
  have w1: "committed w1 = db w1"
    using db_input_int [OF Pair] assms by simp
  show ?thesis
  proof (cases r)
    case (Inl e)
    with Pair w1 show ?thesis by (simp add: generate_bill_try_def)
  next
    case (Inr pid)
    show ?thesis
    proof (cases "select_patient (db w1) pid")
      case (Inl e)
      with Pair Inr w1 show ?thesis by (simp add: generate_bill_try_def)
    next
      case sel: (Inr po)
      show ?thesis
      proof (cases po)
        case None
        with sel Pair Inr w1 show ?thesis by (simp add: generate_bill_try_def)
      next
        case (Some p)
        note sp = sel [unfolded Some]
        let ?w2 = "print (''Invoicing for: '' @ full_name p) w1"
        obtain x c0 where f: "consultation_fee L ?w2 = (x, c0)"
          by (cases "consultation_fee L ?w2")
        from db_consultation_fee [OF f] w1 have c0: "committed (world c0) = db (world c0)"
          by simp
        obtain y c1 where l: "bill_loop L c0 = (y, c1)"
          by (cases "bill_loop L c0")
        from loop_updates [OF c0, of L] l have c1: "committed (world c1) = db (world c1)"
          by auto
        from Pair Inr sp f l c0 c1 show ?thesis
          by (auto simp: generate_bill_try_def committed_write_bill split: option.splits)
      qed
    qed
  qed
qed

lemma generate_bill_abort_after_draw:
  assumes "stdin w = pid_s # no # a # name # q # a2 # name2 # bad # rest"
    and "py_int L pid_s = Some pid" and "select_patient (db w) pid = Inr (Some p)"
    and "lower no \<noteq> ''y''" and "lower a = ''y''"
    and "select_item (db w) name = Some r" and "py_int L q = Some n" and "n \<le> quantity r"
    and "quantity r - n < 2 ^ 63"
    and "lower a2 = ''y''" and "select_item (db w) name2 = Some r2" and "py_int L bad = None"
  shows "generate_bill L w =
     (Returned,
      \<lparr>db = set_quantity (db w) (item_id r) (quantity r - n),
       committed = set_quantity (db w) (item_id r) (quantity r - n),
       stdin = rest,
       stdout = stdout w @
         [CHR 0x0A # ''--- GENERATE INVOICE ---'', ''Invoicing for: '' @ full_name p,
          ''Price: $'' @ fstr L (price_per_unit r) @ ''/unit | Available: '' @ str_int (quantity r),
          ''Added '' @ name @ '' to bill and updated inventory.'',
          ''Price: $'' @ fstr L (price_per_unit r2) @ ''/unit | Available: '' @
            str_int (if item_id r2 = item_id r then quantity r - n else quantity r2),
          ''Invalid input error. Transaction aborted.'']\<rparr>)"
proof -
  have u: "select_item (set_quantity (db w) (item_id r) (quantity r - n)) name2 =
        Some (if item_id r2 = item_id r then r2\<lparr>quantity := quantity r - n\<rparr> else r2)"
    using assms(11) by (rule select_item_after_update)
  from assms u show ?thesis
    by (simp add: generate_bill_def generate_bill_try_def consultation_fee_def bill_loop.simps
        bill_loop_body_def input_def input_int_def print_def execute_query_def update_quantity_ok
        except_ValueError_def Let_def commit_def)
qed

text \<open>
  Claim C8. Every debit is committed on its own, and nothing takes it back.
  \<^item> A pass that draws successfully (requested at most available, the new quantity
    below \<open>2 ^ 63\<close>) ends with the new quantity committed, and records the UPDATE with
    the line it appends.
  \<^item> From any invoice in progress with nothing pending, however the loop ends (the
    operator stops, a quantity is not a number, the input ends, an UPDATE overflows)
    and after any number of passes: what is committed at the end is what was committed
    at the start with the UPDATEs of all the lines added since, in their order; nothing
    is pending; and the bills table is as before.
  \<^item> Whenever the \<^verbatim>\<open>try\<close> block of \<^verbatim>\<open>generate_bill\<close> raises, everything written is
    committed and the bills table is unchanged: no bill is written.
  \<^item> The whole method on one draw followed by a quantity that is not a number: it
    prints that the transaction is aborted and returns, with the debit committed and no
    bill.
\<close>

theorem debits_survive_aborted_invoice:
  "(stdin (world c) = a # name # q # rest \<and> lower a = ''y'' \<and>
    select_item (db (world c)) name = Some r \<and> py_int L q = Some n \<and> n \<le> quantity r \<and>
    quantity r - n < 2 ^ 63 \<longrightarrow>
      (\<exists>c1. bill_loop_body L c = Continue c1 \<and>
         committed (world c1) = set_quantity (db (world c)) (item_id r) (quantity r - n) \<and>
         select_item (committed (world c1)) name = Some (r\<lparr>quantity := quantity r - n\<rparr>) \<and>
         map line_update (bill_items c1) =
           map line_update (bill_items c) @ [Some (item_id r, quantity r - n)]))
   \<and> (committed (world c) = db (world c) \<and> bill_loop L c = (x, c') \<longrightarrow>
        (\<exists>ls. bill_items c' = bill_items c @ ls \<and>
           committed (world c') = apply_updates ls (committed (world c)) \<and>
           db (world c') = committed (world c') \<and>
           bills (committed (world c')) = bills (committed (world c))))
   \<and> (committed w0 = db w0 \<and> generate_bill_try L w0 = (Some e0, w0') \<longrightarrow>
        committed w0' = db w0' \<and> bills (committed w0') = bills (committed w0))
   \<and> (stdin w = pid_s # no # a1 # name1 # q1 # a2 # name2 # bad # rest1 \<and>
      py_int L pid_s = Some pid \<and> select_patient (db w) pid = Inr (Some p) \<and>
      lower no \<noteq> ''y'' \<and> lower a1 = ''y'' \<and>
      select_item (db w) name1 = Some r1 \<and> py_int L q1 = Some n1 \<and> n1 \<le> quantity r1 \<and>
      quantity r1 - n1 < 2 ^ 63 \<and>
      lower a2 = ''y'' \<and> select_item (db w) name2 = Some r2 \<and> py_int L bad = None \<longrightarrow>
        fst (generate_bill L w) = Returned \<and>
        last (stdout (snd (generate_bill L w))) = ''Invalid input error. Transaction aborted.'' \<and>
        committed (snd (generate_bill L w)) =
          set_quantity (db w) (item_id r1) (quantity r1 - n1) \<and>
        select_item (committed (snd (generate_bill L w))) name1 =
          Some (r1\<lparr>quantity := quantity r1 - n1\<rparr>) \<and>
        bills (committed (snd (generate_bill L w))) = bills (db w))"
proof (intro conjI impI)
  assume h: "stdin (world c) = a # name # q # rest \<and> lower a = ''y'' \<and>
    select_item (db (world c)) name = Some r \<and> py_int L q = Some n \<and> n \<le> quantity r \<and>
    quantity r - n < 2 ^ 63"
  then have "bill_loop_body L c =
     (if quantity r - n < 2 ^ 63 then
        Continue
          \<lparr>bill_items = bill_items c @
             [\<lparr>line_text = name @ '' x'' @ str_int n @ '': $'' @
                  fmt2f L (fmul_int L (price_per_unit r) n),
               line_cost = fmul_int L (price_per_unit r) n,
               line_update = Some (item_id r, quantity r - n)\<rparr>],
           running_total = fadd L (running_total c) (fmul_int L (price_per_unit r) n),
           world = \<lparr>db = set_quantity (db (world c)) (item_id r) (quantity r - n),
              committed = set_quantity (db (world c)) (item_id r) (quantity r - n),
              stdin = rest,
              stdout = stdout (world c) @
                [''Price: $'' @ fstr L (price_per_unit r) @ ''/unit | Available: '' @
                   str_int (quantity r),
                 ''Added '' @ name @ '' to bill and updated inventory.'']\<rparr>\<rparr>
      else
        Raise OverflowError
          (c\<lparr>world := \<lparr>db = db (world c), committed = committed (world c), stdin = rest,
              stdout = stdout (world c) @
                [''Price: $'' @ fstr L (price_per_unit r) @ ''/unit | Available: '' @
                   str_int (quantity r)]\<rparr>\<rparr>))"
    by (elim conjE) (rule bill_loop_body_update)
  with h show "\<exists>c1. bill_loop_body L c = Continue c1 \<and>
         committed (world c1) = set_quantity (db (world c)) (item_id r) (quantity r - n) \<and>
         select_item (committed (world c1)) name = Some (r\<lparr>quantity := quantity r - n\<rparr>) \<and>
         map line_update (bill_items c1) =
           map line_update (bill_items c) @ [Some (item_id r, quantity r - n)]"
    by (simp add: select_item_set_quantity)
next
  assume h: "committed (world c) = db (world c) \<and> bill_loop L c = (x, c')"
  with loop_updates [of c L] obtain ls where "bill_items c' = bill_items c @ ls"
    and "db (world c') = apply_updates ls (db (world c))"
    and "committed (world c') = db (world c')"
    by auto
  with h show "\<exists>ls. bill_items c' = bill_items c @ ls \<and>
           committed (world c') = apply_updates ls (committed (world c)) \<and>
           db (world c') = committed (world c') \<and>
           bills (committed (world c')) = bills (committed (world c))"
    by (intro exI [of _ ls]) simp
next
  assume h: "committed w0 = db w0 \<and> generate_bill_try L w0 = (Some e0, w0')"
  with generate_bill_try_committed [of w0 L] show k: "committed w0' = db w0'"
    by simp
  from h generate_bill_try_bills [of L w0] have "bills (db w0') = bills (db w0)"
    by auto
  with h k show "bills (committed w0') = bills (committed w0)"
    by simp
next
  assume h3: "stdin w = pid_s # no # a1 # name1 # q1 # a2 # name2 # bad # rest1 \<and>
      py_int L pid_s = Some pid \<and> select_patient (db w) pid = Inr (Some p) \<and>
      lower no \<noteq> ''y'' \<and> lower a1 = ''y'' \<and>
      select_item (db w) name1 = Some r1 \<and> py_int L q1 = Some n1 \<and> n1 \<le> quantity r1 \<and>
      quantity r1 - n1 < 2 ^ 63 \<and>
      lower a2 = ''y'' \<and> select_item (db w) name2 = Some r2 \<and> py_int L bad = None"
  then have i: "select_item (db w) name1 = Some r1"
    by blast
  from h3 have g: "generate_bill L w =
     (Returned,
      \<lparr>db = set_quantity (db w) (item_id r1) (quantity r1 - n1),
       committed = set_quantity (db w) (item_id r1) (quantity r1 - n1),
       stdin = rest1,
       stdout = stdout w @
         [CHR 0x0A # ''--- GENERATE INVOICE ---'', ''Invoicing for: '' @ full_name p,
          ''Price: $'' @ fstr L (price_per_unit r1) @ ''/unit | Available: '' @ str_int (quantity r1),
          ''Added '' @ name1 @ '' to bill and updated inventory.'',
          ''Price: $'' @ fstr L (price_per_unit r2) @ ''/unit | Available: '' @
            str_int (if item_id r2 = item_id r1 then quantity r1 - n1 else quantity r2),
          ''Invalid input error. Transaction aborted.'']\<rparr>)"
    by (elim conjE) (rule generate_bill_abort_after_draw)
  from g show "fst (generate_bill L w) = Returned" by simp
  from g show "last (stdout (snd (generate_bill L w))) = ''Invalid input error. Transaction aborted.''"
    by simp
  from g show "committed (snd (generate_bill L w)) =
      set_quantity (db w) (item_id r1) (quantity r1 - n1)"
    by simp
  from g i show "select_item (committed (snd (generate_bill L w))) name1 =
      Some (r1\<lparr>quantity := quantity r1 - n1\<rparr>)"
    by (simp add: select_item_set_quantity)
  from g show "bills (committed (snd (generate_bill L w))) = bills (db w)" by simp
qed

theorem debits_survive_aborted_invoice_witness:
  "(\<exists>c1. bill_loop_body decimal_builtins (open_invoice [''y'', ''Paracetamol'', ''5'']) = Continue c1 \<and>
      committed (world c1) = set_quantity clinic 1 45 \<and>
      select_item (committed (world c1)) ''Paracetamol'' = Some (paracetamol\<lparr>quantity := 45\<rparr>))
   \<and> (\<exists>c'. bill_loop decimal_builtins
         (open_invoice [''y'', ''Paracetamol'', ''5'', ''y'', ''Aspirin'', ''y'', ''Paracetamol'', ''3'',
                        ''y'', ''Paracetamol'', ''five'']) = (Some ValueError, c') \<and>
         map line_text (bill_items c') = [''Paracetamol x5: $12.50'', ''Paracetamol x3: $7.50''] \<and>
         committed (world c') = apply_updates (bill_items c') clinic \<and>
         committed (world c') = set_quantity (set_quantity clinic 1 45) 1 42 \<and>
         bills (committed (world c')) = [])
   \<and> (\<exists>w'. generate_bill_try decimal_builtins
         (console clinic [''1'', ''n'', ''y'', ''Paracetamol'', ''5'', ''y'', ''Paracetamol'',
                          ''-9223372036854775800'']) = (Some OverflowError, w') \<and>
         committed w' = db w' \<and> bills (committed w') = [] \<and>
         select_item (committed w') ''Paracetamol'' = Some (paracetamol\<lparr>quantity := 45\<rparr>))
   \<and> fst (generate_bill decimal_builtins
     (console clinic [''1'', ''n'', ''y'', ''Paracetamol'', ''5'', ''y'', ''Paracetamol'', ''five''])) = Returned
   \<and> last (stdout (snd (generate_bill decimal_builtins
     (console clinic [''1'', ''n'', ''y'', ''Paracetamol'', ''5'', ''y'', ''Paracetamol'', ''five''])))) =
       ''Invalid input error. Transaction aborted.''
   \<and> select_item (committed (snd (generate_bill decimal_builtins
     (console clinic [''1'', ''n'', ''y'', ''Paracetamol'', ''5'', ''y'', ''Paracetamol'', ''five'']))))
       ''Paracetamol'' = Some (paracetamol\<lparr>quantity := 45\<rparr>)
   \<and> bills (committed (snd (generate_bill decimal_builtins
     (console clinic [''1'', ''n'', ''y'', ''Paracetamol'', ''5'', ''y'', ''Paracetamol'', ''five''])))) = []"
proof -
  let ?w = "console clinic [''1'', ''n'', ''y'', ''Paracetamol'', ''5'', ''y'', ''Paracetamol'', ''five'']"
  let ?v = "console clinic [''1'', ''n'', ''y'', ''Paracetamol'', ''5'', ''y'', ''Paracetamol'',
                          ''-9223372036854775800'']"
  let ?v' = "\<lparr>db = set_quantity clinic 1 45, committed = set_quantity clinic 1 45, stdin = [],
      stdout = [''Invoicing for: Asha Roy'', ''Price: $2.5/unit | Available: 50'',
                ''Added Paracetamol to bill and updated inventory.'',
                ''Price: $2.5/unit | Available: 45'']\<rparr> :: rat world"
  let ?c = "open_invoice [''y'', ''Paracetamol'', ''5'']"
  let ?d = "open_invoice [''y'', ''Paracetamol'', ''5'', ''y'', ''Aspirin'', ''y'', ''Paracetamol'', ''3'',
                        ''y'', ''Paracetamol'', ''five'']"
  let ?d' = "\<lparr>bill_items =
        [\<lparr>line_text = ''Paracetamol x5: $12.50'', line_cost = 25 / 2, line_update = Some (1, 45)\<rparr>,
         \<lparr>line_text = ''Paracetamol x3: $7.50'', line_cost = 15 / 2, line_update = Some (1, 42)\<rparr>],
       running_total = 20,
       world = \<lparr>db = set_quantity (set_quantity clinic 1 45) 1 42,
                committed = set_quantity (set_quantity clinic 1 45) 1 42, stdin = [],
                stdout = [''Price: $2.5/unit | Available: 50'',
                          ''Added Paracetamol to bill and updated inventory.'',
                          ''Item not found in inventory.'',
                          ''Price: $2.5/unit | Available: 45'',
                          ''Added Paracetamol to bill and updated inventory.'',
                          ''Price: $2.5/unit | Available: 42'']\<rparr>\<rparr> :: rat invoice"
  have s: "stdin ?w = ''1'' # ''n'' # ''y'' # ''Paracetamol'' # ''5'' # ''y'' # ''Paracetamol'' # ''five'' # []"
    by (simp add: console_def)
  have p1: "py_int decimal_builtins ''1'' = Some 1" and p5: "py_int decimal_builtins ''5'' = Some 5"
    and pb: "py_int decimal_builtins ''five'' = None"
    by code_simp+
  have pt: "select_patient (db ?w) 1 = Inr (Some \<lparr>patient_id = 1, full_name = ''Asha Roy''\<rparr>)"
    by (simp add: console_def clinic_def select_patient_def int64_def)
  have n: "lower ''n'' \<noteq> ''y''" and y: "lower ''y'' = ''y''"
    by code_simp+
  have i: "select_item (db ?w) ''Paracetamol'' = Some paracetamol"
    by (simp add: console_def clinic_item)
  have le: "5 \<le> quantity paracetamol" "quantity paracetamol - 5 < 2 ^ 63"
    by (simp_all add: paracetamol_def)
  have q: "quantity paracetamol - 5 = 45" "item_id paracetamol = 1"
    by (simp_all add: paracetamol_def)
  have b: "bills (db ?w) = []" "db (world ?c) = clinic" "bills clinic = []"
    "committed (world ?d) = clinic" "bill_items ?d = []" "bills (committed ?v) = []"
    by (simp_all add: console_def clinic_def open_invoice_def)
  have k: "committed (world ?d) = db (world ?d)" "committed ?v = db ?v"
    by (simp_all add: console_def open_invoice_def)
  have sc: "stdin (world ?c) = ''y'' # ''Paracetamol'' # ''5'' # []"
    by (simp add: open_invoice_def console_def)
  have ic: "select_item (db (world ?c)) ''Paracetamol'' = Some paracetamol"
    by (simp add: open_invoice_def console_def clinic_item)
  have l: "bill_loop decimal_builtins ?d = (Some ValueError, ?d')"
    by code_simp
  have t0: "generate_bill_try decimal_builtins ?v = (Some OverflowError, ?v')"
    by code_simp
  have i0: "select_item (set_quantity clinic 1 45) ''Paracetamol'' = Some (paracetamol\<lparr>quantity := 45\<rparr>)"
    using select_item_set_quantity [OF clinic_item, of 45] by (simp add: q)
  note t = debits_survive_aborted_invoice [where a = "''y''" and name = "''Paracetamol''"
      and q = "''5''" and rest = "[]" and r = paracetamol and L = decimal_builtins and n = 5
      and c' = ?d' and x = "Some ValueError" and ?w0.0 = ?v and ?e0.0 = OverflowError and w0' = ?v'
      and w = ?w and pid_s = "''1''" and no = "''n''" and ?a1.0 = "''y''"
      and ?name1.0 = "''Paracetamol''" and ?q1.0 = "''5''" and ?a2.0 = "''y''"
      and ?name2.0 = "''Paracetamol''" and bad = "''five''" and ?rest1.0 = "[]" and pid = 1
      and p = "\<lparr>patient_id = 1, full_name = ''Asha Roy''\<rparr>"
      and ?r1.0 = paracetamol and ?n1.0 = 5 and ?r2.0 = paracetamol]
  from t [where c = ?c, THEN conjunct1] sc y ic p5 le
  have u1: "\<exists>c1. bill_loop_body decimal_builtins ?c = Continue c1 \<and>
      committed (world c1) = set_quantity clinic 1 45 \<and>
      select_item (committed (world c1)) ''Paracetamol'' = Some (paracetamol\<lparr>quantity := 45\<rparr>)"
    by (auto simp: q b)
  from t [where c = ?d, THEN conjunct2, THEN conjunct1] k(1) l
  obtain ls where "bill_items ?d' = bill_items ?d @ ls"
    and "committed (world ?d') = apply_updates ls (committed (world ?d))"
    and "bills (committed (world ?d')) = bills (committed (world ?d))"
    by blast
  then have "committed (world ?d') = apply_updates (bill_items ?d') clinic"
    and "bills (committed (world ?d')) = []"
    by (simp_all add: b)
  with l
  have u2: "\<exists>c'. bill_loop decimal_builtins ?d = (Some ValueError, c') \<and>
         map line_text (bill_items c') = [''Paracetamol x5: $12.50'', ''Paracetamol x3: $7.50''] \<and>
         committed (world c') = apply_updates (bill_items c') clinic \<and>
         committed (world c') = set_quantity (set_quantity clinic 1 45) 1 42 \<and>
         bills (committed (world c')) = []"
    by (intro exI [of _ ?d']) simp
  from t [where c = ?c, THEN conjunct2, THEN conjunct2, THEN conjunct1] k(2) t0
  have "committed ?v' = db ?v' \<and> bills (committed ?v') = bills (committed ?v)"
    by blast
  with t0 i0
  have u3: "\<exists>w'. generate_bill_try decimal_builtins ?v = (Some OverflowError, w') \<and>
         committed w' = db w' \<and> bills (committed w') = [] \<and>
         select_item (committed w') ''Paracetamol'' = Some (paracetamol\<lparr>quantity := 45\<rparr>)"
    by (intro exI [of _ ?v']) (simp add: b)
  from t [where c = ?c, THEN conjunct2, THEN conjunct2, THEN conjunct2] s p1 pt n y i p5 le pb
  have "fst (generate_bill decimal_builtins ?w) = Returned \<and>
      last (stdout (snd (generate_bill decimal_builtins ?w))) =
        ''Invalid input error. Transaction aborted.'' \<and>
      select_item (committed (snd (generate_bill decimal_builtins ?w))) ''Paracetamol'' =
        Some (paracetamol\<lparr>quantity := quantity paracetamol - 5\<rparr>) \<and>
      bills (committed (snd (generate_bill decimal_builtins ?w))) = bills (db ?w)"
    by blast
  then have u4: "fst (generate_bill decimal_builtins ?w) = Returned \<and>
      last (stdout (snd (generate_bill decimal_builtins ?w))) =
        ''Invalid input error. Transaction aborted.'' \<and>
      select_item (committed (snd (generate_bill decimal_builtins ?w))) ''Paracetamol'' =
        Some (paracetamol\<lparr>quantity := 45\<rparr>) \<and>
      bills (committed (snd (generate_bill decimal_builtins ?w))) = []"
    by (simp only: q b)
  from u1 u2 u3 u4 show ?thesis
    by blast
qed

end
